theory Spec2Isabelle
  imports Main "HOL-Library.Word"
begin

unbundle bit_operations_syntax

section \<open>The NCCH container decoder of \<^verbatim>\<open>src/core/ncch/ncch_container.cpp\<close>\<close>

text \<open>
  A shallow embedding of \<^verbatim>\<open>NCCHContainer\<close> (\<^verbatim>\<open>Load\<close>, \<^verbatim>\<open>LoadSectionExeFS\<close>,
  \<^verbatim>\<open>ReadProgramId\<close>, \<^verbatim>\<open>ReadExtdataId\<close>, \<^verbatim>\<open>HasExeFS\<close>, \<^verbatim>\<open>HasExHeader\<close>) and of the free
  function \<^verbatim>\<open>LoadSharedRomFS\<close>. The decoder object is a record that every member function
  takes and returns; output parameters are passed in and returned; fatal assertions and
  out-of-bounds copies are error values.
\<close>

subsection \<open>Machine types\<close>

type_synonym u8 = "8 word"
type_synonym u16 = "16 word"
type_synonym u32 = "32 word"
type_synonym u64 = "64 word"

text \<open>The values of \<^verbatim>\<open>ResultStatus\<close> that this file returns.\<close>

datatype ResultStatus = Success | Error | ErrorInvalidFormat | ErrorNotUsed | ErrorEncrypted

text \<open>\<^verbatim>\<open>MakeMagic(a, b, c, d) = a | b << 8 | c << 16 | d << 24\<close>, as a \<^verbatim>\<open>u32\<close>.\<close>

definition MakeMagic :: "char \<Rightarrow> char \<Rightarrow> char \<Rightarrow> char \<Rightarrow> u32" where
  "MakeMagic a b c d =
     (of_nat (of_char a) OR push_bit 8 (of_nat (of_char b)) OR
      push_bit 16 (of_nat (of_char c)) OR push_bit 24 (of_nat (of_char d)))"

definition kMaxSections :: nat where
  "kMaxSections = 8"

definition kBlockSize :: u32 where
  "kBlockSize = 0x200"

subsection \<open>The headers, as the code reads their fields\<close>

text \<open>
  The struct declarations (\<^verbatim>\<open>ncch_container.h\<close>) are not part of the sources at hand. Each
  struct is kept in the decoder as its raw bytes, which is what \<^verbatim>\<open>ReadBytes\<close> fills and what
  the cipher rewrites in place; the fields the code reads are the components of the records
  below, and the byte layout (struct size and field extraction) is a parameter of the model,
  see \<open>env\<close>. A one-bit field is the truth value the code tests.
\<close>

record NCCH_Header =
  signature :: "u8 list"
  magic :: u32
  partition_id :: "u8 list"
  version :: u16
  program_id :: u64
  extended_header_size :: u32
  fixed_key :: bool
  no_crypto :: bool
  hdr_exefs_offset :: u32   \<comment> \<open>\<^verbatim>\<open>ncch_header.exefs_offset\<close>, in media units\<close>
  hdr_exefs_size :: u32     \<comment> \<open>\<^verbatim>\<open>ncch_header.exefs_size\<close>, in media units\<close>
  romfs_offset :: u32

text \<open>
  Of the extended header the code reads \<^verbatim>\<open>system_info.jump_id\<close> and the storage info of
  \<^verbatim>\<open>arm11_system_local_caps\<close> (the remaining fields are only logged). The six values
  \<^verbatim>\<open>extdata_id0.Value()\<close> .. \<^verbatim>\<open>extdata_id5.Value()\<close> are six components here, as the
  specification describes them (six alternate identifiers beside one legacy identifier);
  whether they share bytes with one another or with the legacy identifier is up to the
  layout, which the results do not depend on.
\<close>

record ExHeader_Header =
  jump_id :: u64
  ext_save_data_id :: u64
  extdata_id0 :: u64
  extdata_id1 :: u64
  extdata_id2 :: u64
  extdata_id3 :: u64
  extdata_id4 :: u64
  extdata_id5 :: u64
  other_attributes :: u8

record ExeFs_SectionHeader =
  sec_name :: string      \<comment> \<open>\<^verbatim>\<open>section.name\<close>, as a \<^verbatim>\<open>char*\<close>: the bytes from the array on\<close>
  sec_offset :: u32       \<comment> \<open>\<^verbatim>\<open>section.offset\<close>\<close>
  sec_size :: u32         \<comment> \<open>\<^verbatim>\<open>section.size\<close>\<close>

text \<open>
  \<^verbatim>\<open>section.name\<close> is passed to \<^verbatim>\<open>strcmp\<close>, which knows no array bound: \<open>sec_name\<close> is what
  the pointer gives, the bytes of the ExeFS header from the first byte of the name array on,
  so that a name array without terminator is read on into the fields behind it. How far
  the bytes are given is up to the layout; a comparison needs one byte more than the
  requested name has characters.
\<close>

record ExeFs_Header =
  sections :: "ExeFs_SectionHeader list"   \<comment> \<open>\<^verbatim>\<open>exefs_header.section\<close>\<close>

record LevelDescriptor =
  lvl_size :: u64         \<comment> \<open>\<^verbatim>\<open>levels[i].size\<close>\<close>
  lvl_block_size :: u32   \<comment> \<open>\<^verbatim>\<open>levels[i].block_size\<close>, a binary exponent\<close>

subsection \<open>The byte source\<close>

text \<open>
  \<^verbatim>\<open>SDMCFile\<close> is an external collaborator: a random-access read over a fixed byte range.
  \<^verbatim>\<open>Seek(off, SEEK_SET)\<close> sets the position; \<^verbatim>\<open>ReadBytes(dst, n)\<close> delivers the bytes from
  the position up to \<open>n\<close> of them, fewer at the end of the data, advances the position and
  returns how many it delivered.
\<close>

record SDMCFile =
  IsOpen :: bool
  content :: "u8 list"
  pos :: nat

definition Seek :: "SDMCFile \<Rightarrow> nat \<Rightarrow> SDMCFile" where
  "Seek f off = f\<lparr>pos := off\<rparr>"

definition ReadBytes :: "SDMCFile \<Rightarrow> nat \<Rightarrow> u8 list \<times> SDMCFile" where
  "ReadBytes f n =
     (let got = take n (drop (pos f) (content f))
      in (got, f\<lparr>pos := pos f + length got\<rparr>))"

text \<open>
  The destination of a read is a buffer of \<open>n\<close> bytes: the bytes delivered replace its
  beginning, the rest of it keeps what it held.
\<close>

definition read_into :: "nat \<Rightarrow> u8 list \<Rightarrow> u8 list \<Rightarrow> u8 list" where
  "read_into n old got = take n (got @ drop (length got) old)"

subsection \<open>What the model is parameterised over\<close>

text \<open>
  The layout of the three structs (their \<^verbatim>\<open>sizeof\<close> and the reading of their fields from
  the raw bytes), the opening of a file below the virtual root, the key store
  (\<^verbatim>\<open>Key::SetKeyY\<close> on slot \<^verbatim>\<open>NCCHSecure1\<close> followed by \<^verbatim>\<open>Key::IsNormalKeyAvailable\<close> and
  \<^verbatim>\<open>Key::GetNormalKey\<close>, as functions of the key Y that was set) and the counter-mode
  cipher (\<^verbatim>\<open>CTR_Mode<AES>::Decryption(key, 16, iv)\<close>, \<^verbatim>\<open>Seek(off)\<close>, \<^verbatim>\<open>ProcessData\<close>: key,
  IV, keystream offset, data).
\<close>

record env =
  sizeof_NCCH_Header :: nat
  as_NCCH_Header :: "u8 list \<Rightarrow> NCCH_Header"
  sizeof_ExHeader_Header :: nat
  as_ExHeader_Header :: "u8 list \<Rightarrow> ExHeader_Header"
  sizeof_ExeFs_Header :: nat
  as_ExeFs_Header :: "u8 list \<Rightarrow> ExeFs_Header"
  as_LevelDescriptor :: "u8 list \<Rightarrow> LevelDescriptor"
  open_SDMCFile :: "string \<Rightarrow> string \<Rightarrow> SDMCFile"
  IsNormalKeyAvailable :: "u8 list \<Rightarrow> bool"
  GetNormalKey :: "u8 list \<Rightarrow> u8 list"
  CTR_Decryption :: "u8 list \<Rightarrow> u8 list \<Rightarrow> nat \<Rightarrow> u8 list \<Rightarrow> u8 list"

subsection \<open>The decoder object\<close>

record NCCHContainer =
  root_folder :: string
  filepath :: string
  ncch_file :: SDMCFile     \<comment> \<open>the member \<^verbatim>\<open>file\<close>\<close>
  exefs_file :: SDMCFile
  ncch_header :: "u8 list"
  exheader_header :: "u8 list"
  exefs_header :: "u8 list"
  has_header :: bool
  has_exheader :: bool
  has_exefs :: bool
  is_loaded :: bool
  is_encrypted :: bool
  primary_key :: "u8 list"
  exheader_ctr :: "u8 list"
  exefs_ctr :: "u8 list"
  exefs_offset :: u32

text \<open>The fields of the structs the decoder holds.\<close>

definition header_of :: "env \<Rightarrow> NCCHContainer \<Rightarrow> NCCH_Header" where
  "header_of E c = as_NCCH_Header E (ncch_header c)"

definition exheader_of :: "env \<Rightarrow> NCCHContainer \<Rightarrow> ExHeader_Header" where
  "exheader_of E c = as_ExHeader_Header E (exheader_header c)"

definition exefs_of :: "env \<Rightarrow> NCCHContainer \<Rightarrow> ExeFs_Header" where
  "exefs_of E c = as_ExeFs_Header E (exefs_header c)"

text \<open>
  The constructor opens the file. The flags start false and the three 16-byte arrays
  zero-filled: the member initialisers are in the header file, which is not at hand; these
  are the values a decoder needs for \<^verbatim>\<open>Load\<close> to run at all (\<open>is_loaded\<close>) and the ones the
  specification gives the IV buffers ("remaining bytes zero").
\<close>

definition NCCHContainer_new :: "env \<Rightarrow> string \<Rightarrow> string \<Rightarrow> NCCHContainer" where
  "NCCHContainer_new E root path =
     \<lparr>root_folder = root, filepath = path,
      ncch_file = open_SDMCFile E root path,
      exefs_file = \<lparr>IsOpen = False, content = [], pos = 0\<rparr>,
      ncch_header = replicate (sizeof_NCCH_Header E) 0,
      exheader_header = replicate (sizeof_ExHeader_Header E) 0,
      exefs_header = replicate (sizeof_ExeFs_Header E) 0,
      has_header = False, has_exheader = False, has_exefs = False,
      is_loaded = False, is_encrypted = False,
      primary_key = replicate 16 0,
      exheader_ctr = replicate 16 0,
      exefs_ctr = replicate 16 0,
      exefs_offset = 0\<rparr>"

definition OpenFile :: "env \<Rightarrow> string \<Rightarrow> string \<Rightarrow> NCCHContainer \<Rightarrow> ResultStatus \<times> NCCHContainer" where
  "OpenFile E root path c =
     (let c1 = c\<lparr>root_folder := root, filepath := path, ncch_file := open_SDMCFile E root path\<rparr>
      in if \<not> IsOpen (ncch_file c1) then (Error, c1) else (Success, c1))"

subsection \<open>\<^verbatim>\<open>Load\<close>\<close>

text \<open>\<^verbatim>\<open>std::copy(src.begin(), src.end(), dst.begin() + off)\<close> into a fixed array.\<close>

definition copy_to :: "u8 list \<Rightarrow> nat \<Rightarrow> u8 list \<Rightarrow> u8 list" where
  "copy_to src off dst = take off dst @ src @ drop (off + length src) dst"

text \<open>The lambda \<^verbatim>\<open>u32ToBEArray\<close> of \<^verbatim>\<open>Load\<close>.\<close>

definition u32ToBEArray :: "u32 \<Rightarrow> u8 list" where
  "u32ToBEArray v =
     [ucast (drop_bit 24 v), ucast (drop_bit 16 v AND 0xFF),
      ucast (drop_bit 8 v AND 0xFF), ucast (v AND 0xFF)]"

text \<open>
  Lines 66 to 127: the encryption mode, the primary key and the two counters. The result is
  the local \<^verbatim>\<open>failed_to_decrypt\<close> with the decoder.
\<close>

definition Load_crypto :: "env \<Rightarrow> NCCHContainer \<Rightarrow> bool \<times> NCCHContainer" where
  "Load_crypto E c =
     (let h = header_of E c in
      if \<not> no_crypto h then
        let c1 = c\<lparr>is_encrypted := True\<rparr>;
            (failed1, c2) =
              (if fixed_key h then (False, c1\<lparr>primary_key := replicate 16 0\<rparr>)
               else
                 let key_y_primary = take 16 (signature h)
                 in (\<not> IsNormalKeyAvailable E key_y_primary,
                     c1\<lparr>primary_key := GetNormalKey E key_y_primary\<rparr>))
        in
          if version h = 0 \<or> version h = 2 then
            let ctr = copy_to (rev (take 8 (partition_id h))) 0 (exheader_ctr c2)
            in (failed1, c2\<lparr>exheader_ctr := ctr[8 := 1], exefs_ctr := ctr[8 := 2]\<rparr>)
          else if version h = 1 then
            let ctr = copy_to (take 8 (partition_id h)) 0 (exheader_ctr c2);
                offset_exheader = u32ToBEArray 0x200;
                offset_exefs = u32ToBEArray (hdr_exefs_offset h * kBlockSize)
            in (failed1, c2\<lparr>exheader_ctr := copy_to offset_exheader 12 ctr,
                             exefs_ctr := copy_to offset_exefs 12 ctr\<rparr>)
          else (True, c2)
      else (False, c\<lparr>is_encrypted := False\<rparr>))"

text \<open>
  Lines 130 to 183: the extended header. \<open>Some e\<close> is the early return of \<^verbatim>\<open>Load\<close> with
  status \<open>e\<close>.
\<close>

definition Load_exheader :: "env \<Rightarrow> bool \<Rightarrow> NCCHContainer \<Rightarrow> ResultStatus option \<times> NCCHContainer" where
  "Load_exheader E failed_to_decrypt c =
     (if extended_header_size (header_of E c) \<noteq> 0 then
        if \<not> IsOpen (ncch_file c) then (Some Error, c)
        else
          let size = sizeof_ExHeader_Header E;
              (got, f1) = ReadBytes (ncch_file c) size;
              c1 = c\<lparr>ncch_file := f1, exheader_header := read_into size (exheader_header c) got\<rparr>
          in
            if length got \<noteq> size then (Some Error, c1)
            else if is_encrypted c1 then
              if jump_id (exheader_of E c1) AND 0xFFFFFFFF =
                 program_id (header_of E c1) AND 0xFFFFFFFF
              then (None, c1\<lparr>is_encrypted := False, has_exheader := True\<rparr>)
              else if failed_to_decrypt then (Some ErrorEncrypted, c1)
              else
                (None, c1\<lparr>exheader_header :=
                            CTR_Decryption E (primary_key c1) (exheader_ctr c1) 0 (exheader_header c1),
                          has_exheader := True\<rparr>)
            else (None, c1\<lparr>has_exheader := True\<rparr>)
      else (None, c))"

text \<open>Lines 186 to 205: the header of the ExeFS.\<close>

definition Load_exefs :: "env \<Rightarrow> NCCHContainer \<Rightarrow> ResultStatus option \<times> NCCHContainer" where
  "Load_exefs E c =
     (if hdr_exefs_size (header_of E c) \<noteq> 0 then
        let c1 = c\<lparr>exefs_offset := hdr_exefs_offset (header_of E c) * kBlockSize\<rparr>;
            size = sizeof_ExeFs_Header E;
            (got, f1) = ReadBytes (Seek (ncch_file c1) (unat (exefs_offset c1))) size;
            c2 = c1\<lparr>ncch_file := f1, exefs_header := read_into size (exefs_header c1) got\<rparr>
        in
          if length got \<noteq> size then (Some Error, c2)
          else
            let c3 = (if is_encrypted c2
                      then c2\<lparr>exefs_header :=
                                CTR_Decryption E (primary_key c2) (exefs_ctr c2) 0 (exefs_header c2)\<rparr>
                      else c2)
            in (None, c3\<lparr>exefs_file := open_SDMCFile E (root_folder c3) (filepath c3),
                         has_exefs := True\<rparr>)
      else (None, c))"

definition Load :: "env \<Rightarrow> NCCHContainer \<Rightarrow> ResultStatus \<times> NCCHContainer" where
  "Load E c =
     (if is_loaded c then (Success, c)
      else if IsOpen (ncch_file c) then
        let size = sizeof_NCCH_Header E;
            (got, f1) = ReadBytes (Seek (ncch_file c) 0) size;
            c1 = c\<lparr>ncch_file := f1, ncch_header := read_into size (ncch_header c) got\<rparr>
        in
          if length got \<noteq> size then (Error, c1)
          else if MakeMagic CHR ''N'' CHR ''C'' CHR ''C'' CHR ''H'' \<noteq> magic (header_of E c1)
          then (ErrorInvalidFormat, c1)
          else
            let (failed_to_decrypt, c2) = Load_crypto E (c1\<lparr>has_header := True\<rparr>)
            in case Load_exheader E failed_to_decrypt c2 of
                 (Some e, c3) \<Rightarrow> (e, c3)
               | (None, c3) \<Rightarrow>
                   (case Load_exefs E c3 of
                      (Some e, c4) \<Rightarrow> (e, c4)
                    | (None, c4) \<Rightarrow> (Success, c4\<lparr>is_loaded := True\<rparr>))
      else (Success, c\<lparr>is_loaded := True\<rparr>))"

subsection \<open>The accessors\<close>

definition ReadProgramId :: "env \<Rightarrow> u64 \<Rightarrow> NCCHContainer \<Rightarrow> ResultStatus \<times> u64 \<times> NCCHContainer" where
  "ReadProgramId E program_id_out c =
     (case Load E c of (result, c1) \<Rightarrow>
        if result \<noteq> Success then (result, program_id_out, c1)
        else if \<not> has_header c1 then (ErrorNotUsed, program_id_out, c1)
        else (Success, program_id (header_of E c1), c1))"

text \<open>The range-for over \<^verbatim>\<open>extdata_ids\<close>: the first non-zero identifier, if there is one.\<close>

fun first_nonzero :: "u64 list \<Rightarrow> u64 option" where
  "first_nonzero [] = None"
| "first_nonzero (x # xs) = (if x \<noteq> 0 then Some x else first_nonzero xs)"

definition extdata_ids :: "ExHeader_Header \<Rightarrow> u64 list" where
  "extdata_ids x =
     [extdata_id0 x, extdata_id1 x, extdata_id2 x, extdata_id3 x, extdata_id4 x, extdata_id5 x]"

definition ReadExtdataId :: "env \<Rightarrow> u64 \<Rightarrow> NCCHContainer \<Rightarrow> ResultStatus \<times> u64 \<times> NCCHContainer" where
  "ReadExtdataId E extdata_id c =
     (case Load E c of (result, c1) \<Rightarrow>
        if result \<noteq> Success then (result, extdata_id, c1)
        else if \<not> has_exheader c1 then (ErrorNotUsed, extdata_id, c1)
        else if drop_bit 1 (other_attributes (exheader_of E c1)) \<noteq> 0 then
          (case first_nonzero (extdata_ids (exheader_of E c1)) of
             Some x \<Rightarrow> (Success, x, c1)
           | None \<Rightarrow> (ErrorNotUsed, extdata_id, c1))
        else (Success, ext_save_data_id (exheader_of E c1), c1))"

definition HasExeFS :: "env \<Rightarrow> NCCHContainer \<Rightarrow> bool \<times> NCCHContainer" where
  "HasExeFS E c =
     (case Load E c of (result, c1) \<Rightarrow>
        if result \<noteq> Success then (False, c1) else (has_exefs c1, c1))"

definition HasExHeader :: "env \<Rightarrow> NCCHContainer \<Rightarrow> bool \<times> NCCHContainer" where
  "HasExHeader E c =
     (case Load E c of (result, c1) \<Rightarrow>
        if result \<noteq> Success then (False, c1) else (has_exheader c1, c1))"

subsection \<open>\<^verbatim>\<open>LoadSectionExeFS\<close>\<close>

text \<open>
  The requested name is a C string: its characters up to the first \<^verbatim>\<open>NUL\<close>, and the
  terminator.
\<close>

definition c_str :: "string \<Rightarrow> string" where
  "c_str s = takeWhile (\<lambda>ch. ch \<noteq> CHR 0x00) s"

text \<open>
  \<^verbatim>\<open>strcmp(section.name, name) == 0\<close>: the memory at \<^verbatim>\<open>section.name\<close> begins with the
  characters of the name and its terminator. \<^verbatim>\<open>strcmp\<close> stops at the first difference or
  at the terminator, wherever the name array ends.
\<close>

definition strcmp_eq :: "string \<Rightarrow> string \<Rightarrow> bool" where
  "strcmp_eq mem name = (take (Suc (length (c_str name))) mem = c_str name @ [CHR 0x00])"

text \<open>\<^verbatim>\<open>buffer.resize(n)\<close>: truncated, or extended by zero bytes.\<close>

definition resize :: "nat \<Rightarrow> u8 list \<Rightarrow> u8 list" where
  "resize n buffer = take n buffer @ replicate (n - length buffer) 0"

text \<open>
  The body of the loop for a descriptor whose name matched (lines 229 to 243). The sum
  \<^verbatim>\<open>section.offset + exefs_offset\<close> is a \<^verbatim>\<open>u32\<close> sum; \<^verbatim>\<open>sizeof(ExeFs_Header)\<close> is added
  in \<^verbatim>\<open>size_t\<close>.
\<close>

definition read_section ::
  "env \<Rightarrow> ExeFs_SectionHeader \<Rightarrow> u8 list \<Rightarrow> NCCHContainer \<Rightarrow> ResultStatus \<times> u8 list \<times> NCCHContainer" where
  "read_section E s buffer c =
     (let section_offset = unat (sec_offset s + exefs_offset c) + sizeof_ExeFs_Header E;
          f1 = Seek (exefs_file c) section_offset;
          dec_seek = unat (sec_offset s) + sizeof_ExeFs_Header E;
          n = unat (sec_size s);
          buffer1 = resize n buffer;
          (got, f2) = ReadBytes f1 n;
          buffer2 = read_into n buffer1 got;
          c1 = c\<lparr>exefs_file := f2\<rparr>
      in
        if length got \<noteq> n then (Error, buffer2, c1)
        else if is_encrypted c1
        then (Success, CTR_Decryption E (primary_key c1) (exefs_ctr c1) dec_seek buffer2, c1)
        else (Success, buffer2, c1))"

fun scan_sections ::
  "env \<Rightarrow> string \<Rightarrow> u8 list \<Rightarrow> NCCHContainer \<Rightarrow> ExeFs_SectionHeader list
     \<Rightarrow> ResultStatus \<times> u8 list \<times> NCCHContainer" where
  "scan_sections E name buffer c [] = (ErrorNotUsed, buffer, c)"
| "scan_sections E name buffer c (s # ss) =
     (if strcmp_eq (sec_name s) name then read_section E s buffer c
      else scan_sections E name buffer c ss)"

definition LoadSectionExeFS ::
  "env \<Rightarrow> string \<Rightarrow> u8 list \<Rightarrow> NCCHContainer \<Rightarrow> ResultStatus \<times> u8 list \<times> NCCHContainer" where
  "LoadSectionExeFS E name buffer c =
     (case Load E c of (result, c1) \<Rightarrow>
        if result \<noteq> Success then (result, buffer, c1)
        else if \<not> IsOpen (exefs_file c1) then (Error, buffer, c1)
        else scan_sections E name buffer c1 (take kMaxSections (sections (exefs_of E c1))))"

subsection \<open>\<^verbatim>\<open>LoadSharedRomFS\<close>\<close>

text \<open>
  \<^verbatim>\<open>RomFSIVFCHeader\<close> is declared in this file, packed: three little-endian \<^verbatim>\<open>u32\<close>, three
  level descriptors and twelve bytes of padding, \<^verbatim>\<open>0x60\<close> bytes by its \<^verbatim>\<open>static_assert\<close>,
  which leaves \<^verbatim>\<open>0x18\<close> bytes for a level descriptor.
\<close>

fun le_word :: "u8 list \<Rightarrow> 'a::len word" where
  "le_word [] = 0"
| "le_word (b # bs) = ucast b OR push_bit 8 (le_word bs)"









subsection \<open>Notions for stating the results\<close>

text \<open>
  What a decoder that is not loaded yet finds in its byte source: the outer header at
  offset 0, the extended header right behind it, and the header of the ExeFS at the byte
  offset the outer header gives (a \<^verbatim>\<open>u32\<close> product, as in line 187).
\<close>

definition file_header_bytes :: "env \<Rightarrow> NCCHContainer \<Rightarrow> u8 list" where
  "file_header_bytes E c = take (sizeof_NCCH_Header E) (content (ncch_file c))"

definition file_header :: "env \<Rightarrow> NCCHContainer \<Rightarrow> NCCH_Header" where
  "file_header E c = as_NCCH_Header E (file_header_bytes E c)"

definition file_exheader_bytes :: "env \<Rightarrow> NCCHContainer \<Rightarrow> u8 list" where
  "file_exheader_bytes E c =
     take (sizeof_ExHeader_Header E) (drop (sizeof_NCCH_Header E) (content (ncch_file c)))"

definition file_exheader :: "env \<Rightarrow> NCCHContainer \<Rightarrow> ExHeader_Header" where
  "file_exheader E c = as_ExHeader_Header E (file_exheader_bytes E c)"

definition file_exefs_offset :: "env \<Rightarrow> NCCHContainer \<Rightarrow> nat" where
  "file_exefs_offset E c = unat (hdr_exefs_offset (file_header E c) * kBlockSize)"

definition file_exefs_bytes :: "env \<Rightarrow> NCCHContainer \<Rightarrow> u8 list" where
  "file_exefs_bytes E c =
     take (sizeof_ExeFs_Header E) (drop (file_exefs_offset E c) (content (ncch_file c)))"

text \<open>
  The byte source is open, the decoder not loaded, and the outer header can be read in full
  and has the magic number.
\<close>

definition header_readable :: "env \<Rightarrow> NCCHContainer \<Rightarrow> bool" where
  "header_readable E c =
     (\<not> is_loaded c \<and> IsOpen (ncch_file c) \<and>
      sizeof_NCCH_Header E \<le> length (content (ncch_file c)) \<and>
      magic (file_header E c) = MakeMagic CHR ''N'' CHR ''C'' CHR ''C'' CHR ''H'')"

text \<open>The extended header can be read in full behind the outer header.\<close>

definition exheader_readable :: "env \<Rightarrow> NCCHContainer \<Rightarrow> bool" where
  "exheader_readable E c =
     (sizeof_NCCH_Header E + sizeof_ExHeader_Header E \<le> length (content (ncch_file c)))"

text \<open>The header of the ExeFS can be read in full at its offset.\<close>

definition exefs_readable :: "env \<Rightarrow> NCCHContainer \<Rightarrow> bool" where
  "exefs_readable E c =
     (file_exefs_offset E c + sizeof_ExeFs_Header E \<le> length (content (ncch_file c)))"

text \<open>
  The conditions under which lines 83 and 122 set \<^verbatim>\<open>failed_to_decrypt\<close>: the key of slot
  Secure1 is not available, or the version is none of 0, 1, 2.
\<close>

definition key_missing :: "env \<Rightarrow> NCCH_Header \<Rightarrow> bool" where
  "key_missing E h = (\<not> fixed_key h \<and> \<not> IsNormalKeyAvailable E (take 16 (signature h)))"

definition version_unknown :: "NCCH_Header \<Rightarrow> bool" where
  "version_unknown h = (version h \<noteq> 0 \<and> version h \<noteq> 1 \<and> version h \<noteq> 2)"

text \<open>The comparison of lines 143 and 144 on an extended header and an outer header.\<close>

definition jump_id_matches :: "ExHeader_Header \<Rightarrow> NCCH_Header \<Rightarrow> bool" where
  "jump_id_matches x h = (jump_id x AND 0xFFFFFFFF = program_id h AND 0xFFFFFFFF)"

text \<open>The decoder after lines 56 to 65, when the outer header was read and has the magic.\<close>

definition after_header :: "env \<Rightarrow> NCCHContainer \<Rightarrow> NCCHContainer" where
  "after_header E c =
     c\<lparr>ncch_file := (ncch_file c)\<lparr>pos := sizeof_NCCH_Header E\<rparr>,
       ncch_header := file_header_bytes E c, has_header := True\<rparr>"

text \<open>The number that a sequence of bytes encodes in big-endian order.\<close>

definition be_nat :: "u8 list \<Rightarrow> nat" where
  "be_nat bs = foldl (\<lambda>a b. a * 256 + unat b) 0 bs"





subsection \<open>An instance of the parameters\<close>

text \<open>
  A small concrete layout, file system, key store and cipher, on which the results below
  are evaluated. The structs are shortened (a 16-byte signature, one byte for each
  alternate identifier), little-endian; a descriptor of the ExeFS has 8 bytes of name, the
  offset and the size, and the memory at its name is given as far as the descriptor goes,
  16 bytes. The key stream of the cipher at position \<open>p\<close> is the sum of the
  bytes of key and IV plus \<open>p\<close>.
\<close>

definition ex_as_NCCH_Header :: "u8 list \<Rightarrow> NCCH_Header" where
  "ex_as_NCCH_Header b =
     \<lparr>signature = take 16 b,
      magic = le_word (take 4 (drop 16 b)),
      partition_id = take 8 (drop 20 b),
      version = le_word (take 2 (drop 28 b)),
      program_id = le_word (take 8 (drop 32 b)),
      extended_header_size = le_word (take 4 (drop 40 b)),
      fixed_key = bit (le_word (take 1 (drop 30 b)) :: u8) 0,
      no_crypto = bit (le_word (take 1 (drop 30 b)) :: u8) 2,
      hdr_exefs_offset = le_word (take 4 (drop 44 b)),
      hdr_exefs_size = le_word (take 4 (drop 48 b)),
      romfs_offset = le_word (take 4 (drop 52 b))\<rparr>"

definition ex_as_ExHeader_Header :: "u8 list \<Rightarrow> ExHeader_Header" where
  "ex_as_ExHeader_Header b =
     \<lparr>jump_id = le_word (take 8 b),
      ext_save_data_id = le_word (take 8 (drop 8 b)),
      extdata_id0 = le_word (take 1 (drop 16 b)),
      extdata_id1 = le_word (take 1 (drop 17 b)),
      extdata_id2 = le_word (take 1 (drop 18 b)),
      extdata_id3 = le_word (take 1 (drop 19 b)),
      extdata_id4 = le_word (take 1 (drop 20 b)),
      extdata_id5 = le_word (take 1 (drop 21 b)),
      other_attributes = le_word (take 1 (drop 22 b))\<rparr>"

definition ex_as_SectionHeader :: "u8 list \<Rightarrow> ExeFs_SectionHeader" where
  "ex_as_SectionHeader b =
     \<lparr>sec_name = map (\<lambda>w. char_of (unat w)) b,
      sec_offset = le_word (take 4 (drop 8 b)),
      sec_size = le_word (take 4 (drop 12 b))\<rparr>"

definition ex_as_ExeFs_Header :: "u8 list \<Rightarrow> ExeFs_Header" where
  "ex_as_ExeFs_Header b =
     \<lparr>sections = map (\<lambda>i. ex_as_SectionHeader (take 16 (drop (16 * i) b))) [0, 1, 2, 3, 4, 5, 6, 7]\<rparr>"

definition ex_as_LevelDescriptor :: "u8 list \<Rightarrow> LevelDescriptor" where
  "ex_as_LevelDescriptor b =
     \<lparr>lvl_size = le_word (take 8 (drop 8 b)),
      lvl_block_size = le_word (take 4 (drop 16 b))\<rparr>"

definition ex_open :: "(string \<Rightarrow> u8 list option) \<Rightarrow> string \<Rightarrow> string \<Rightarrow> SDMCFile" where
  "ex_open fs root path =
     (case fs path of
        None \<Rightarrow> \<lparr>IsOpen = False, content = [], pos = 0\<rparr>
      | Some bytes \<Rightarrow> \<lparr>IsOpen = True, content = bytes, pos = 0\<rparr>)"

fun ex_stream :: "u8 \<Rightarrow> nat \<Rightarrow> u8 list \<Rightarrow> u8 list" where
  "ex_stream k p [] = []"
| "ex_stream k p (b # bs) = (b XOR (k + of_nat p)) # ex_stream k (Suc p) bs"

definition ex_cipher :: "u8 list \<Rightarrow> u8 list \<Rightarrow> nat \<Rightarrow> u8 list \<Rightarrow> u8 list" where
  "ex_cipher key iv off data = ex_stream (sum_list (key @ iv)) off data"

definition ex_env :: "(string \<Rightarrow> u8 list option) \<Rightarrow> bool \<Rightarrow> env" where
  "ex_env fs key_available =
     \<lparr>sizeof_NCCH_Header = 56, as_NCCH_Header = ex_as_NCCH_Header,
      sizeof_ExHeader_Header = 24, as_ExHeader_Header = ex_as_ExHeader_Header,
      sizeof_ExeFs_Header = 128, as_ExeFs_Header = ex_as_ExeFs_Header,
      as_LevelDescriptor = ex_as_LevelDescriptor,
      open_SDMCFile = ex_open fs,
      IsNormalKeyAvailable = (\<lambda>key_y. key_available),
      GetNormalKey = (\<lambda>key_y. key_y),
      CTR_Decryption = ex_cipher\<rparr>"

text \<open>The bytes of a shortened outer header, from its fields.\<close>

definition ex_ncch_bytes ::
  "u8 list \<Rightarrow> u8 \<Rightarrow> u8 \<Rightarrow> u8 list \<Rightarrow> u8 \<Rightarrow> u8 \<Rightarrow> u8 \<Rightarrow> u8 \<Rightarrow> u8 list" where
  "ex_ncch_bytes part_id ver flags prog_id exh_size exefs_off exefs_sz romfs_off =
     replicate 16 0x11 @ [0x4E, 0x43, 0x43, 0x48] @ part_id @ [ver, 0, flags, 0] @
     prog_id @ [exh_size, 0, 0, 0] @ [exefs_off, 0, 0, 0] @ [exefs_sz, 0, 0, 0] @
     [romfs_off, 0, 0, 0]"

text \<open>
  An extended header: jump identifier, legacy identifier, the six alternate identifiers,
  the attribute byte.
\<close>

definition ex_exheader_bytes :: "u8 list \<Rightarrow> u8 \<Rightarrow> u8 list \<Rightarrow> u8 \<Rightarrow> u8 list" where
  "ex_exheader_bytes jump legacy ids attr = jump @ [legacy, 0, 0, 0, 0, 0, 0, 0] @ ids @ [attr, 0]"

text \<open>
  A section directory with the descriptors \<open>icon\<close> (offset 0, size 10), \<open>banner\<close>
  (offset 10, size 20), \<open>wrap\<close> (offset \<open>0xFFFFFE00\<close>, size 4) and one whose name array
  holds the eight characters \<open>longname\<close> and no terminator (offset 30, size 0), four unused
  descriptors, and the 30 bytes of the first two sections.
\<close>

definition ex_exefs_bytes :: "u8 list" where
  "ex_exefs_bytes =
     [0x69, 0x63, 0x6F, 0x6E, 0, 0, 0, 0, 0, 0, 0, 0, 10, 0, 0, 0] @
     [0x62, 0x61, 0x6E, 0x6E, 0x65, 0x72, 0, 0, 10, 0, 0, 0, 20, 0, 0, 0] @
     [0x77, 0x72, 0x61, 0x70, 0, 0, 0, 0, 0, 0xFE, 0xFF, 0xFF, 4, 0, 0, 0] @
     [0x6C, 0x6F, 0x6E, 0x67, 0x6E, 0x61, 0x6D, 0x65, 30, 0, 0, 0, 0, 0, 0, 0] @
     replicate 64 0 @ map of_nat [1 ..< 31]"

text \<open>
  A container image without ExeFS: outer header (partition identifier 1 to 8, program
  identifier \<open>0x0004000012345678\<close>, an extended header declared), extended header (legacy
  identifier 42). The parameters are the format version, the flag byte (bit 0 fixed key,
  bit 2 no crypto), the jump identifier, the six alternate identifiers and the attribute
  byte.
\<close>

definition ex_small :: "u8 \<Rightarrow> u8 \<Rightarrow> u8 list \<Rightarrow> u8 list \<Rightarrow> u8 \<Rightarrow> u8 list" where
  "ex_small ver flags jump ids attr =
     ex_ncch_bytes [1, 2, 3, 4, 5, 6, 7, 8] ver flags [0x78, 0x56, 0x34, 0x12, 0, 0, 4, 0] 24 0 0 0 @
     ex_exheader_bytes jump 42 ids attr"

text \<open>The same with the ExeFS at media unit 1, after padding.\<close>

definition ex_image :: "u8 \<Rightarrow> u8 \<Rightarrow> u8 list \<Rightarrow> u8 list" where
  "ex_image ver flags jump =
     ex_ncch_bytes [1, 2, 3, 4, 5, 6, 7, 8] ver flags [0x78, 0x56, 0x34, 0x12, 0, 0, 4, 0] 24 1 1 0 @
     ex_exheader_bytes jump 42 [0, 0, 7, 0, 0, 0] 0 @
     replicate 432 0 @ ex_exefs_bytes"

text \<open>A file system with the one file \<open>game.app\<close>, and a decoder constructed on it.\<close>

definition ex_fs :: "u8 list \<Rightarrow> string \<Rightarrow> u8 list option" where
  "ex_fs bytes path = (if path = ''game.app'' then Some bytes else None)"

definition ex_decoder :: "u8 list \<Rightarrow> bool \<Rightarrow> NCCHContainer" where
  "ex_decoder bytes key_available =
     NCCHContainer_new (ex_env (ex_fs bytes) key_available) ''sdmc'' ''game.app''"

text \<open>
  The example image without encryption (flag byte 4), with its environment and decoder.
\<close>

definition ex_game :: "u8 list" where
  "ex_game = ex_image 0 4 [1, 1, 1, 1, 0, 0, 0, 0]"

definition ex_game_env :: env where
  "ex_game_env = ex_env (ex_fs ex_game) True"

definition ex_game_decoder :: NCCHContainer where
  "ex_game_decoder = ex_decoder ex_game True"

text \<open>
  Three files for a decoder that is given a second file after a failed \<^verbatim>\<open>Load\<close>: the example
  image cut off behind its extended header, so that the header of the ExeFS it declares
  cannot be read; the outer header alone of a container of version 1 with the fixed-key flag,
  which declares an extended header and the ExeFS at media unit 1; and the small image of
  version 0 with the fixed-key flag.
\<close>

definition ex_cut :: "u8 list" where
  "ex_cut = take 80 ex_game"

definition ex_v1_header :: "u8 list" where
  "ex_v1_header =
     ex_ncch_bytes [1, 2, 3, 4, 5, 6, 7, 8] 1 1 [0x78, 0x56, 0x34, 0x12, 0, 0, 4, 0] 24 1 1 0"

definition ex_v0 :: "u8 list" where
  "ex_v0 = ex_small 0 1 [1, 1, 1, 1, 0, 0, 0, 0] [0, 0, 7, 0, 0, 0] 0"

text \<open>
  A file system with the two files \<open>old.app\<close> and \<open>game.app\<close>, either of which may be
  missing, and the decoder that was constructed on \<open>old.app\<close>, has run \<^verbatim>\<open>Load\<close>, and was
  then given \<open>game.app\<close> by \<^verbatim>\<open>OpenFile\<close>.
\<close>

definition ex_fs2 :: "u8 list option \<Rightarrow> u8 list option \<Rightarrow> string \<Rightarrow> u8 list option" where
  "ex_fs2 old new path =
     (if path = ''old.app'' then old else if path = ''game.app'' then new else None)"

definition ex_env2 :: "u8 list option \<Rightarrow> u8 list option \<Rightarrow> env" where
  "ex_env2 old new = ex_env (ex_fs2 old new) True"

definition ex_reopened :: "u8 list option \<Rightarrow> u8 list option \<Rightarrow> NCCHContainer" where
  "ex_reopened old new =
     snd (OpenFile (ex_env2 old new) ''sdmc'' ''game.app''
            (snd (Load (ex_env2 old new) (NCCHContainer_new (ex_env2 old new) ''sdmc'' ''old.app''))))"

text \<open>
  A small image without encryption (flag byte 4), with its environment and decoder; the
  parameters are the legacy identifier, the six alternate identifiers and the attribute
  byte.
\<close>

definition ex_plain :: "u8 \<Rightarrow> u8 list \<Rightarrow> u8 \<Rightarrow> u8 list" where
  "ex_plain legacy ids attr =
     ex_ncch_bytes [1, 2, 3, 4, 5, 6, 7, 8] 0 4 [0x78, 0x56, 0x34, 0x12, 0, 0, 4, 0] 24 0 0 0 @
     ex_exheader_bytes [0, 0, 0, 0, 0, 0, 0, 0] legacy ids attr"

definition ex_plain_env :: "u8 \<Rightarrow> u8 list \<Rightarrow> u8 \<Rightarrow> env" where
  "ex_plain_env legacy ids attr = ex_env (ex_fs (ex_plain legacy ids attr)) True"

definition ex_plain_decoder :: "u8 \<Rightarrow> u8 list \<Rightarrow> u8 \<Rightarrow> NCCHContainer" where
  "ex_plain_decoder legacy ids attr = ex_decoder (ex_plain legacy ids attr) True"


section \<open>Properties\<close>

subsection \<open>Auxiliary facts\<close>

lemma Load_is_loaded: "is_loaded c \<Longrightarrow> Load E c = (Success, c)"
  by (simp add: Load_def)

lemma Load_exheader_not_Success: "Load_exheader E f c = (Some e, c') \<Longrightarrow> e \<noteq> Success"
  by (auto simp: Load_exheader_def Let_def split: if_splits prod.splits)

lemma Load_exefs_not_Success: "Load_exefs E c = (Some e, c') \<Longrightarrow> e \<noteq> Success"
  by (auto simp: Load_exefs_def Let_def split: if_splits prod.splits)

lemma Load_Success_is_loaded: "Load E c = (Success, c1) \<Longrightarrow> is_loaded c1"
  by (auto simp: Load_def Let_def split: if_splits prod.splits option.splits
      dest: Load_exheader_not_Success Load_exefs_not_Success)

lemma first_nonzero_find: "first_nonzero xs = find (\<lambda>x. x \<noteq> 0) xs"
  by (induction xs) auto

lemma drop_bit_1_u8: "(drop_bit 1 (a::u8) = 0) = (a = 0 \<or> a = 1)"
proof -
  have "(drop_bit 1 a = 0) = (unat a div 2 = 0)"
    by (simp add: drop_bit_eq_div word_eq_iff_unsigned[where ?'a=nat] unat_div)
  also have "\<dots> = (unat a = 0 \<or> unat a = 1)" by auto
  also have "\<dots> = (a = 0 \<or> a = 1)"
    by (metis unat_eq_0 unsigned_1 unsigned_word_eqI)
  finally show ?thesis .
qed

lemma drop_bit_Suc0_u8: "(drop_bit (Suc 0) (a::u8) = 0) = (a = 0 \<or> a = 1)"
  using drop_bit_1_u8 [of a] by simp

lemma first_nonzero_None: "(first_nonzero xs = None) = (\<forall>i \<in> set xs. i = 0)"
  by (induction xs) auto

lemma Load_crypto_fst:
  "fst (Load_crypto E c) =
     (\<not> no_crypto (header_of E c) \<and> (key_missing E (header_of E c) \<or> version_unknown (header_of E c)))"
  by (auto simp: Load_crypto_def Let_def key_missing_def version_unknown_def split: prod.splits if_splits)

lemma Load_crypto_frame:
  "ncch_header (snd (Load_crypto E c)) = ncch_header c"
  "ncch_file (snd (Load_crypto E c)) = ncch_file c"
  "exefs_file (snd (Load_crypto E c)) = exefs_file c"
  "exheader_header (snd (Load_crypto E c)) = exheader_header c"
  "exefs_header (snd (Load_crypto E c)) = exefs_header c"
  "has_header (snd (Load_crypto E c)) = has_header c"
  "has_exheader (snd (Load_crypto E c)) = has_exheader c"
  "has_exefs (snd (Load_crypto E c)) = has_exefs c"
  "is_loaded (snd (Load_crypto E c)) = is_loaded c"
  "root_folder (snd (Load_crypto E c)) = root_folder c"
  "filepath (snd (Load_crypto E c)) = filepath c"
  "exefs_offset (snd (Load_crypto E c)) = exefs_offset c"
  "is_encrypted (snd (Load_crypto E c)) = (\<not> no_crypto (header_of E c))"
  by (auto simp: Load_crypto_def Let_def split: prod.splits if_splits)

lemma header_of_Load_crypto: "header_of E (snd (Load_crypto E c)) = header_of E c"
  by (simp add: header_of_def Load_crypto_frame)

lemma Load_open:
  assumes "header_readable E c"
  shows "Load E c =
    (case Load_exheader E (fst (Load_crypto E (after_header E c))) (snd (Load_crypto E (after_header E c))) of
       (Some e, c3) \<Rightarrow> (e, c3)
     | (None, c3) \<Rightarrow>
         (case Load_exefs E c3 of
            (Some e, c4) \<Rightarrow> (e, c4)
          | (None, c4) \<Rightarrow> (Success, c4\<lparr>is_loaded := True\<rparr>)))"
  using assms
  by (simp add: header_readable_def Load_def ReadBytes_def Seek_def read_into_def Let_def
      header_of_def file_header_def file_header_bytes_def after_header_def split: prod.splits)

lemma header_of_after_header: "header_of E (after_header E c) = file_header E c"
  by (simp add: header_of_def after_header_def file_header_def)

text \<open>The decoder on entry to the block of the extended header.\<close>

lemma crypto_state:
  "header_of E (snd (Load_crypto E (after_header E c))) = file_header E c"
  "ncch_file (snd (Load_crypto E (after_header E c))) = (ncch_file c)\<lparr>pos := sizeof_NCCH_Header E\<rparr>"
  "is_encrypted (snd (Load_crypto E (after_header E c))) = (\<not> no_crypto (file_header E c))"
  "fst (Load_crypto E (after_header E c)) =
     (\<not> no_crypto (file_header E c) \<and> (key_missing E (file_header E c) \<or> version_unknown (file_header E c)))"
  "has_exheader (snd (Load_crypto E (after_header E c))) = has_exheader c"
  "has_exefs (snd (Load_crypto E (after_header E c))) = has_exefs c"
  "has_header (snd (Load_crypto E (after_header E c)))"
  "exefs_header (snd (Load_crypto E (after_header E c))) = exefs_header c"
  "exefs_file (snd (Load_crypto E (after_header E c))) = exefs_file c"
  by (simp_all add: header_of_Load_crypto header_of_after_header Load_crypto_frame Load_crypto_fst)
     (simp_all add: after_header_def)

lemma Load_exheader_absent:
  "extended_header_size (header_of E c) = 0 \<Longrightarrow> Load_exheader E failed c = (None, c)"
  by (simp add: Load_exheader_def)

lemma Load_exheader_present:
  assumes "extended_header_size (header_of E c) \<noteq> 0" "IsOpen (ncch_file c)"
    and "pos (ncch_file c) + sizeof_ExHeader_Header E \<le> length (content (ncch_file c))"
  shows "Load_exheader E failed c =
    (let raw = take (sizeof_ExHeader_Header E) (drop (pos (ncch_file c)) (content (ncch_file c)));
         c1 = c\<lparr>ncch_file := (ncch_file c)\<lparr>pos := pos (ncch_file c) + sizeof_ExHeader_Header E\<rparr>,
                exheader_header := raw\<rparr>
     in if is_encrypted c then
          if jump_id_matches (as_ExHeader_Header E raw) (header_of E c)
          then (None, c1\<lparr>is_encrypted := False, has_exheader := True\<rparr>)
          else if failed then (Some ErrorEncrypted, c1)
          else (None, c1\<lparr>exheader_header := CTR_Decryption E (primary_key c) (exheader_ctr c) 0 raw,
                         has_exheader := True\<rparr>)
        else (None, c1\<lparr>has_exheader := True\<rparr>))"
  using assms
  by (simp add: Load_exheader_def ReadBytes_def read_into_def Let_def jump_id_matches_def
      exheader_of_def header_of_def)

lemma Load_exefs_frame:
  "is_encrypted (snd (Load_exefs E c)) = is_encrypted c"
  "exheader_header (snd (Load_exefs E c)) = exheader_header c"
  "has_exheader (snd (Load_exefs E c)) = has_exheader c"
  "has_header (snd (Load_exefs E c)) = has_header c"
  "is_loaded (snd (Load_exefs E c)) = is_loaded c"
  "ncch_header (snd (Load_exefs E c)) = ncch_header c"
  "exheader_ctr (snd (Load_exefs E c)) = exheader_ctr c"
  "exefs_ctr (snd (Load_exefs E c)) = exefs_ctr c"
  "primary_key (snd (Load_exefs E c)) = primary_key c"
  by (auto simp: Load_exefs_def Let_def ReadBytes_def split: prod.splits if_splits)

lemma Load_exefs_status:
  "fst (Load_exefs E c) = None \<or> fst (Load_exefs E c) = Some Error"
  by (auto simp: Load_exefs_def Let_def ReadBytes_def split: prod.splits if_splits)

lemma Load_exefs_absent:
  "hdr_exefs_size (header_of E c) = 0 \<Longrightarrow> Load_exefs E c = (None, c)"
  by (simp add: Load_exefs_def)

lemma Load_exefs_present:
  assumes "hdr_exefs_size (header_of E c) \<noteq> 0"
    and "unat (hdr_exefs_offset (header_of E c) * kBlockSize) + sizeof_ExeFs_Header E
           \<le> length (content (ncch_file c))"
  shows "Load_exefs E c =
    (let off = unat (hdr_exefs_offset (header_of E c) * kBlockSize);
         raw = take (sizeof_ExeFs_Header E) (drop off (content (ncch_file c)))
     in (None,
         c\<lparr>exefs_offset := hdr_exefs_offset (header_of E c) * kBlockSize,
           ncch_file := (ncch_file c)\<lparr>pos := off + sizeof_ExeFs_Header E\<rparr>,
           exefs_header := (if is_encrypted c
                            then CTR_Decryption E (primary_key c) (exefs_ctr c) 0 raw else raw),
           exefs_file := open_SDMCFile E (root_folder c) (filepath c),
           has_exefs := True\<rparr>))"
  using assms
  by (simp add: Load_exefs_def ReadBytes_def Seek_def read_into_def Let_def)

lemma header_of_upd [simp]:
  "header_of E (c\<lparr>ncch_file := f\<rparr>) = header_of E c"
  "header_of E (c\<lparr>exheader_header := x\<rparr>) = header_of E c"
  "header_of E (c\<lparr>is_encrypted := b\<rparr>) = header_of E c"
  "header_of E (c\<lparr>has_exheader := b\<rparr>) = header_of E c"
  by (simp_all add: header_of_def)

lemma Load_exheader_readable:
  assumes "header_readable E c" "extended_header_size (file_header E c) \<noteq> 0"
    and "exheader_readable E c"
  shows "Load_exheader E failed (snd (Load_crypto E (after_header E c))) =
      (let raw = file_exheader_bytes E c;
         c1 = snd (Load_crypto E (after_header E c))
                \<lparr>ncch_file := (ncch_file c)\<lparr>pos := sizeof_NCCH_Header E + sizeof_ExHeader_Header E\<rparr>,
                 exheader_header := raw\<rparr>
       in if \<not> no_crypto (file_header E c) then
          if jump_id_matches (file_exheader E c) (file_header E c)
          then (None, c1\<lparr>is_encrypted := False, has_exheader := True\<rparr>)
          else if failed then (Some ErrorEncrypted, c1)
          else (None, c1\<lparr>exheader_header :=
                           CTR_Decryption E (primary_key (snd (Load_crypto E (after_header E c))))
                             (exheader_ctr (snd (Load_crypto E (after_header E c)))) 0 raw,
                         has_exheader := True\<rparr>)
        else (None, c1\<lparr>has_exheader := True\<rparr>))"
proof -
  have "IsOpen (ncch_file c)" using assms(1) by (simp add: header_readable_def)
  then show ?thesis
    using assms(2,3)
    by (simp add: Load_exheader_present crypto_state exheader_readable_def Let_def
        file_exheader_bytes_def file_exheader_def)
qed

lemma Load_exheader_frame:
  "exheader_ctr (snd (Load_exheader E f c)) = exheader_ctr c"
  "exefs_ctr (snd (Load_exheader E f c)) = exefs_ctr c"
  "primary_key (snd (Load_exheader E f c)) = primary_key c"
  by (auto simp: Load_exheader_def Let_def ReadBytes_def split: prod.splits if_splits)

lemma Load_frame_crypto:
  assumes "header_readable E c"
  shows "exheader_ctr (snd (Load E c)) = exheader_ctr (snd (Load_crypto E (after_header E c))) \<and>
         exefs_ctr (snd (Load E c)) = exefs_ctr (snd (Load_crypto E (after_header E c))) \<and>
         primary_key (snd (Load E c)) = primary_key (snd (Load_crypto E (after_header E c)))"
proof -
  let ?f = "fst (Load_crypto E (after_header E c))"
  let ?c2 = "snd (Load_crypto E (after_header E c))"
  obtain o3 c3 where X: "Load_exheader E ?f ?c2 = (o3, c3)" by (cases "Load_exheader E ?f ?c2")
  obtain o4 c4 where Y: "Load_exefs E c3 = (o4, c4)" by (cases "Load_exefs E c3")
  have a: "exheader_ctr c3 = exheader_ctr ?c2 \<and> exefs_ctr c3 = exefs_ctr ?c2 \<and>
           primary_key c3 = primary_key ?c2"
    using Load_exheader_frame [of E ?f ?c2] X by simp
  have b: "exheader_ctr c4 = exheader_ctr c3 \<and> exefs_ctr c4 = exefs_ctr c3 \<and>
           primary_key c4 = primary_key c3"
    using Load_exefs_frame [of E c3] Y by simp
  show ?thesis
    using a b by (simp add: Load_open [OF assms] X Y split: option.splits)
qed

lemma Load_tail_frame:
  "is_encrypted (snd (case Load_exefs E c3 of
       (None, c4) \<Rightarrow> (Success, c4\<lparr>is_loaded := True\<rparr>) | (Some e, c4) \<Rightarrow> (e, c4))) = is_encrypted c3"
  "exheader_header (snd (case Load_exefs E c3 of
       (None, c4) \<Rightarrow> (Success, c4\<lparr>is_loaded := True\<rparr>) | (Some e, c4) \<Rightarrow> (e, c4))) = exheader_header c3"
  using Load_exefs_frame(1,2) [of E c3]
  by (cases "Load_exefs E c3"; simp split: option.splits)+

lemma Load_tail_status:
  "fst (case Load_exefs E c3 of
       (None, c4) \<Rightarrow> (Success, c4\<lparr>is_loaded := True\<rparr>) | (Some e, c4) \<Rightarrow> (e, c4)) \<noteq> ErrorEncrypted"
  using Load_exefs_status [of E c3]
  by (cases "Load_exefs E c3"; auto split: option.splits)

lemma scan_sections_find:
  "scan_sections E name buffer c ss =
     (case find (\<lambda>s. strcmp_eq (sec_name s) name) ss of
        None \<Rightarrow> (ErrorNotUsed, buffer, c)
      | Some s \<Rightarrow> read_section E s buffer c)"
  by (induction ss) simp_all

lemma read_section_eq:
  "read_section E s buffer c =
     (let off = unat (sec_offset s + exefs_offset c) + sizeof_ExeFs_Header E;
          n = unat (sec_size s);
          raw = take n (drop off (content (exefs_file c)))
      in if n = 0 \<or> off + n \<le> length (content (exefs_file c))
         then (Success,
               if is_encrypted c
               then CTR_Decryption E (primary_key c) (exefs_ctr c)
                      (unat (sec_offset s) + sizeof_ExeFs_Header E) raw
               else raw,
               c\<lparr>exefs_file := (exefs_file c)\<lparr>pos := off + n\<rparr>\<rparr>)
         else (Error, read_into n (resize n buffer) raw,
               c\<lparr>exefs_file := (exefs_file c)\<lparr>pos := off + length raw\<rparr>\<rparr>))"
  by (auto simp: read_section_def ReadBytes_def Seek_def Let_def read_into_def)

lemma LoadSectionExeFS_find:
  assumes "Load E c = (Success, c1)" "IsOpen (exefs_file c1)"
  shows "LoadSectionExeFS E name buffer c =
     (case find (\<lambda>s. strcmp_eq (sec_name s) name) (take kMaxSections (sections (exefs_of E c1))) of
        None \<Rightarrow> (ErrorNotUsed, buffer, c1)
      | Some s \<Rightarrow> read_section E s buffer c1)"
  using assms by (simp add: LoadSectionExeFS_def scan_sections_find)

lemma FF_mask: "(0xFF :: u32) = mask 8"
  by (simp add: mask_eq_exp_minus_1)

lemma byte0: "unat (ucast (v AND 0xFF :: u32) :: u8) = unat v mod 256"
  by (simp add: FF_mask unsigned_ucast_eq unsigned_take_bit_eq take_bit_eq_mod unat_mod
      flip: take_bit_eq_mask)

lemma byte1: "unat (ucast (drop_bit 8 v AND 0xFF :: u32) :: u8) = unat v div 256 mod 256"
  by (simp add: FF_mask unsigned_ucast_eq unsigned_take_bit_eq take_bit_eq_mod unat_drop_bit_eq
      drop_bit_eq_div unat_mod unat_div flip: take_bit_eq_mask)

lemma byte2: "unat (ucast (drop_bit 16 v AND 0xFF :: u32) :: u8) = unat v div 65536 mod 256"
  by (simp add: FF_mask unsigned_ucast_eq unsigned_take_bit_eq take_bit_eq_mod unat_drop_bit_eq
      drop_bit_eq_div unat_mod unat_div flip: take_bit_eq_mask)

lemma byte3: "unat (ucast (drop_bit 24 (v :: u32)) :: u8) = unat v div 16777216 mod 256"
  by (simp add: unsigned_ucast_eq unsigned_take_bit_eq take_bit_eq_mod unat_drop_bit_eq
      drop_bit_eq_div unat_mod unat_div)

lemma be_digits:
  fixes n :: nat
  shows "((n div 16777216 * 256 + n div 65536 mod 256) * 256 + n div 256 mod 256) * 256 + n mod 256 = n"
proof -
  have a: "n div 65536 = n div 16777216 * 256 + n div 65536 mod 256"
    using div_mult_mod_eq [of "n div 65536" 256] by (simp add: div_mult2_eq [symmetric])
  have b: "n div 256 = n div 65536 * 256 + n div 256 mod 256"
    using div_mult_mod_eq [of "n div 256" 256] by (simp add: div_mult2_eq [symmetric])
  have c: "n = n div 256 * 256 + n mod 256"
    using div_mult_mod_eq [of n 256] by simp
  show ?thesis using a b c by simp
qed

lemma be_nat_u32ToBEArray: "be_nat (u32ToBEArray v) = unat v"
proof -
  have "unat v < 2 ^ 32" using unsigned_less [of v, where ?'a = nat] by simp
  then have "unat v div 16777216 < 256" by simp
  then have t: "unat v div 16777216 mod 256 = unat v div 16777216" by simp
  have "be_nat (u32ToBEArray v) =
      ((unat v div 16777216 mod 256 * 256 + unat v div 65536 mod 256) * 256 + unat v div 256 mod 256) * 256
        + unat v mod 256"
    using byte0 [of v] byte1 [of v] byte2 [of v] byte3 [of v]
    by (simp add: be_nat_def u32ToBEArray_def)
  then show ?thesis by (simp only: t be_digits)
qed

lemma Load_crypto_ctrs:
  assumes "\<not> no_crypto (header_of E c)"
  shows "exheader_ctr (snd (Load_crypto E c)) =
           (if version (header_of E c) = 0 \<or> version (header_of E c) = 2
            then (copy_to (rev (take 8 (partition_id (header_of E c)))) 0 (exheader_ctr c))[8 := 1]
            else if version (header_of E c) = 1
            then copy_to (u32ToBEArray 0x200) 12
                   (copy_to (take 8 (partition_id (header_of E c))) 0 (exheader_ctr c))
            else exheader_ctr c)"
    and "exefs_ctr (snd (Load_crypto E c)) =
           (if version (header_of E c) = 0 \<or> version (header_of E c) = 2
            then (copy_to (rev (take 8 (partition_id (header_of E c)))) 0 (exheader_ctr c))[8 := 2]
            else if version (header_of E c) = 1
            then copy_to (u32ToBEArray (hdr_exefs_offset (header_of E c) * kBlockSize)) 12
                   (copy_to (take 8 (partition_id (header_of E c))) 0 (exheader_ctr c))
            else exefs_ctr c)"
  using assms by (auto simp: Load_crypto_def Let_def split: prod.splits if_splits)

lemma length_u32ToBEArray: "length (u32ToBEArray v) = 4"
  by (simp add: u32ToBEArray_def)

lemma u32ToBEArray_0x200: "u32ToBEArray 0x200 = [0, 0, 2, 0]"
  by (simp add: u32ToBEArray_def drop_bit_eq_div)



lemma copy_to_0_16:
  assumes "length p = 8" "length old = 16"
  shows "copy_to p 0 old = p @ drop 8 old"
  using assms by (simp add: copy_to_def)

lemma update_8_16:
  assumes "length p = 8" "length (old :: u8 list) = 16"
  shows "(p @ drop 8 old)[8 := x] = p @ [x] @ drop 9 old"
proof -
  have "drop 8 old = old ! 8 # drop 9 old"
    using assms(2) Cons_nth_drop_Suc [of 8 old] by simp
  then show ?thesis using assms(1) by (simp add: list_update_append)
qed

lemma copy_to_12_16:
  assumes "length p = 8" "length (old :: u8 list) = 16" "length q = 4"
  shows "copy_to q 12 (p @ drop 8 old) = p @ take 4 (drop 8 old) @ q"
  using assms by (simp add: copy_to_def)

lemma crypto_state_more:
  "ncch_header (snd (Load_crypto E (after_header E c))) = file_header_bytes E c"
  "root_folder (snd (Load_crypto E (after_header E c))) = root_folder c"
  "filepath (snd (Load_crypto E (after_header E c))) = filepath c"
  by (simp_all add: Load_crypto_frame) (simp_all add: after_header_def)

text \<open>The example image, loaded.\<close>

lemma ex_game_loaded:
  "fst (Load ex_game_env ex_game_decoder) = Success"
  "exefs_offset (snd (Load ex_game_env ex_game_decoder)) = 512"
  "\<not> is_encrypted (snd (Load ex_game_env ex_game_decoder))"
  "IsOpen (exefs_file (snd (Load ex_game_env ex_game_decoder)))"
  "content (exefs_file (snd (Load ex_game_env ex_game_decoder))) = ex_game"
  "exefs_header (snd (Load ex_game_env ex_game_decoder)) = take 128 ex_exefs_bytes"
  by code_simp+

lemma ex_game_Load:
  "Load ex_game_env ex_game_decoder = (Success, snd (Load ex_game_env ex_game_decoder))"
  using ex_game_loaded(1) by (metis prod.collapse)

lemma ex_game_sections:
  "sections (exefs_of ex_game_env (snd (Load ex_game_env ex_game_decoder))) =
     sections (ex_as_ExeFs_Header (take 128 ex_exefs_bytes))"
  by (simp add: exefs_of_def ex_game_loaded(6)) (simp add: ex_game_env_def ex_env_def)

lemma ex_game_size: "sizeof_ExeFs_Header ex_game_env = 128"
  by (simp add: ex_game_env_def ex_env_def)

lemma ex_game_length: "length ex_game = 670"
  by (simp add: ex_game_def ex_image_def ex_ncch_bytes_def ex_exheader_bytes_def ex_exefs_bytes_def)

lemma ex_directory:
  "sections (ex_as_ExeFs_Header (take 128 ex_exefs_bytes)) =
     [\<lparr>sec_name = ''icon'' @ replicate 8 (CHR 0x00) @ [CHR 0x0A, CHR 0x00, CHR 0x00, CHR 0x00],
       sec_offset = 0, sec_size = 10\<rparr>,
      \<lparr>sec_name = ''banner'' @ [CHR 0x00, CHR 0x00, CHR 0x0A, CHR 0x00, CHR 0x00, CHR 0x00,
                               CHR 0x14, CHR 0x00, CHR 0x00, CHR 0x00],
       sec_offset = 10, sec_size = 20\<rparr>,
      \<lparr>sec_name = ''wrap'' @ replicate 5 (CHR 0x00) @ [CHR 0xFE, CHR 0xFF, CHR 0xFF,
                             CHR 0x04, CHR 0x00, CHR 0x00, CHR 0x00],
       sec_offset = 0xFFFFFE00, sec_size = 4\<rparr>,
      \<lparr>sec_name = ''longname'' @ [CHR 0x1E] @ replicate 7 (CHR 0x00),
       sec_offset = 30, sec_size = 0\<rparr>,
      \<lparr>sec_name = replicate 16 (CHR 0x00), sec_offset = 0, sec_size = 0\<rparr>,
      \<lparr>sec_name = replicate 16 (CHR 0x00), sec_offset = 0, sec_size = 0\<rparr>,
      \<lparr>sec_name = replicate 16 (CHR 0x00), sec_offset = 0, sec_size = 0\<rparr>,
      \<lparr>sec_name = replicate 16 (CHR 0x00), sec_offset = 0, sec_size = 0\<rparr>]"
  by code_simp

lemma ex_directory_find:
  "find (\<lambda>s. strcmp_eq (sec_name s) ''banner'')
     (take kMaxSections (sections (ex_as_ExeFs_Header (take 128 ex_exefs_bytes)))) =
     Some (sections (ex_as_ExeFs_Header (take 128 ex_exefs_bytes)) ! 1)"
  "find (\<lambda>s. strcmp_eq (sec_name s) ''wrap'')
     (take kMaxSections (sections (ex_as_ExeFs_Header (take 128 ex_exefs_bytes)))) =
     Some (sections (ex_as_ExeFs_Header (take 128 ex_exefs_bytes)) ! 2)"
  "find (\<lambda>s. strcmp_eq (sec_name s) ''logo'')
     (take kMaxSections (sections (ex_as_ExeFs_Header (take 128 ex_exefs_bytes)))) = None"
  "find (\<lambda>s. strcmp_eq (sec_name s) ''longname'')
     (take kMaxSections (sections (ex_as_ExeFs_Header (take 128 ex_exefs_bytes)))) = None"
  "sec_offset (sections (ex_as_ExeFs_Header (take 128 ex_exefs_bytes)) ! 1) = 10"
  "sec_size (sections (ex_as_ExeFs_Header (take 128 ex_exefs_bytes)) ! 1) = 20"
  "sec_offset (sections (ex_as_ExeFs_Header (take 128 ex_exefs_bytes)) ! 2) = 0xFFFFFE00"
  "sec_size (sections (ex_as_ExeFs_Header (take 128 ex_exefs_bytes)) ! 2) = 4"
  "\<forall>s \<in> set (take kMaxSections (sections (ex_as_ExeFs_Header (take 128 ex_exefs_bytes)))).
      length (sec_name s) = 16"
  by (simp_all add: ex_directory kMaxSections_def strcmp_eq_def c_str_def)

subsection \<open>\<^verbatim>\<open>Load\<close> is idempotent\<close>

text \<open>
  Claim C8. Once \<^verbatim>\<open>Load\<close> has returned \<open>Success\<close> on a decoder, the decoder is marked as
  loaded, and every further call of \<^verbatim>\<open>Load\<close>, however many, returns \<open>Success\<close> and leaves
  the whole decoder as it is: the byte source with its read position, the parsed headers,
  the flags, key and counters.
\<close>

theorem Load_idempotent:
  assumes "Load E c = (Success, c1)"
  shows "is_loaded c1 \<and> Load E c1 = (Success, c1) \<and> ((\<lambda>s. snd (Load E s)) ^^ n) c1 = c1"
proof -
  have l: "is_loaded c1" using assms by (rule Load_Success_is_loaded)
  then have s: "Load E c1 = (Success, c1)" by (rule Load_is_loaded)
  have "((\<lambda>s. snd (Load E s)) ^^ n) c1 = c1"
    by (induction n) (simp_all add: s)
  with l s show ?thesis by simp
qed

text \<open>
  The instance: the small image with the no-crypto flag, read by a new decoder; three
  further calls.
\<close>

theorem Load_idempotent_witness:
  "fst (Load (ex_plain_env 0 [0, 0, 7, 0, 0, 0] 0) (ex_plain_decoder 0 [0, 0, 7, 0, 0, 0] 0)) = Success \<and>
   Load (ex_plain_env 0 [0, 0, 7, 0, 0, 0] 0)
     (snd (Load (ex_plain_env 0 [0, 0, 7, 0, 0, 0] 0) (ex_plain_decoder 0 [0, 0, 7, 0, 0, 0] 0))) =
   (Success, snd (Load (ex_plain_env 0 [0, 0, 7, 0, 0, 0] 0) (ex_plain_decoder 0 [0, 0, 7, 0, 0, 0] 0))) \<and>
   ((\<lambda>s. snd (Load (ex_plain_env 0 [0, 0, 7, 0, 0, 0] 0) s)) ^^ 3)
     (snd (Load (ex_plain_env 0 [0, 0, 7, 0, 0, 0] 0) (ex_plain_decoder 0 [0, 0, 7, 0, 0, 0] 0))) =
   snd (Load (ex_plain_env 0 [0, 0, 7, 0, 0, 0] 0) (ex_plain_decoder 0 [0, 0, 7, 0, 0, 0] 0))"
proof -
  let ?E = "ex_plain_env 0 [0, 0, 7, 0, 0, 0] 0"
  let ?c = "ex_plain_decoder 0 [0, 0, 7, 0, 0, 0] 0"
  have ok: "fst (Load ?E ?c) = Success" by code_simp
  then have "Load ?E ?c = (Success, snd (Load ?E ?c))" by (metis prod.collapse)
  from Load_idempotent [OF this, of 3] ok show ?thesis by simp
qed

subsection \<open>A decoder whose byte source is not open\<close>

text \<open>
  Claim C9, as stated, fails. The presence flags are set while \<^verbatim>\<open>Load\<close> parses (lines 65 and
  182) and nothing clears them: neither the early returns of \<^verbatim>\<open>Load\<close> nor \<^verbatim>\<open>OpenFile\<close>. A
  decoder constructed on the cut image fails to load (the header of the ExeFS cannot be
  read) after it has parsed the outer and the extended header; \<^verbatim>\<open>OpenFile\<close> on a file that
  does not exist leaves its byte source not open. \<^verbatim>\<open>Load\<close> then returns \<open>Success\<close>, and
  afterwards \<^verbatim>\<open>ReadProgramId\<close> succeeds with the program identifier of the first file and
  \<^verbatim>\<open>HasExHeader\<close> returns true.
\<close>

theorem Load_not_open_counterexample:
  "\<not> IsOpen (ncch_file (ex_reopened (Some ex_cut) None)) \<and>
   \<not> is_loaded (ex_reopened (Some ex_cut) None) \<and>
   fst (Load (ex_env2 (Some ex_cut) None) (ex_reopened (Some ex_cut) None)) = Success \<and>
   fst (ReadProgramId (ex_env2 (Some ex_cut) None) 0
          (snd (Load (ex_env2 (Some ex_cut) None) (ex_reopened (Some ex_cut) None)))) = Success \<and>
   fst (snd (ReadProgramId (ex_env2 (Some ex_cut) None) 0
          (snd (Load (ex_env2 (Some ex_cut) None) (ex_reopened (Some ex_cut) None))))) =
     0x0004000012345678 \<and>
   fst (HasExHeader (ex_env2 (Some ex_cut) None)
          (snd (Load (ex_env2 (Some ex_cut) None) (ex_reopened (Some ex_cut) None))))"
  by code_simp

text \<open>
  Claim C9, amended. On a decoder whose byte source is not open \<^verbatim>\<open>Load\<close> returns \<open>Success\<close>
  and changes nothing but \<open>is_loaded\<close>, which it sets: no read (the byte source and its
  position are as before), no header parsed, the presence flags as they were. Afterwards
  \<^verbatim>\<open>ReadProgramId\<close>, \<^verbatim>\<open>HasExeFS\<close> and \<^verbatim>\<open>HasExHeader\<close> answer by these flags: where
  \<open>has_header\<close> is false, as on a decoder that never got as far as a header,
  \<^verbatim>\<open>ReadProgramId\<close> fails with \<open>ErrorNotUsed\<close> and leaves its output as it was, and where it
  is true it returns the program identifier of the header the decoder still holds;
  \<^verbatim>\<open>HasExeFS\<close> and \<^verbatim>\<open>HasExHeader\<close> return \<open>has_exefs\<close> and \<open>has_exheader\<close>, false on such a
  decoder.
\<close>

theorem Load_not_open:
  assumes "\<not> IsOpen (ncch_file c)"
  shows "Load E c = (Success, c\<lparr>is_loaded := True\<rparr>) \<and>
         ReadProgramId E p (c\<lparr>is_loaded := True\<rparr>) =
           (if has_header c then (Success, program_id (header_of E c), c\<lparr>is_loaded := True\<rparr>)
            else (ErrorNotUsed, p, c\<lparr>is_loaded := True\<rparr>)) \<and>
         HasExeFS E (c\<lparr>is_loaded := True\<rparr>) = (has_exefs c, c\<lparr>is_loaded := True\<rparr>) \<and>
         HasExHeader E (c\<lparr>is_loaded := True\<rparr>) = (has_exheader c, c\<lparr>is_loaded := True\<rparr>)"
proof -
  have "is_loaded c \<Longrightarrow> c\<lparr>is_loaded := True\<rparr> = c" by (cases c) simp
  then have "Load E c = (Success, c\<lparr>is_loaded := True\<rparr>)"
    using assms(1) by (simp add: Load_def)
  then show ?thesis
    by (simp add: Load_def ReadProgramId_def HasExeFS_def HasExHeader_def header_of_def)
qed

text \<open>
  The instance: a new decoder on a file system that has no file; its flags are false, and
  the three accessors answer as the claim has it.
\<close>

theorem Load_not_open_witness:
  "Load (ex_env Map.empty True) (NCCHContainer_new (ex_env Map.empty True) ''sdmc'' ''game.app'') =
     (Success, NCCHContainer_new (ex_env Map.empty True) ''sdmc'' ''game.app''\<lparr>is_loaded := True\<rparr>) \<and>
   ReadProgramId (ex_env Map.empty True) 5
     (NCCHContainer_new (ex_env Map.empty True) ''sdmc'' ''game.app''\<lparr>is_loaded := True\<rparr>) =
     (ErrorNotUsed, 5, NCCHContainer_new (ex_env Map.empty True) ''sdmc'' ''game.app''\<lparr>is_loaded := True\<rparr>) \<and>
   HasExeFS (ex_env Map.empty True)
     (NCCHContainer_new (ex_env Map.empty True) ''sdmc'' ''game.app''\<lparr>is_loaded := True\<rparr>) =
     (False, NCCHContainer_new (ex_env Map.empty True) ''sdmc'' ''game.app''\<lparr>is_loaded := True\<rparr>) \<and>
   HasExHeader (ex_env Map.empty True)
     (NCCHContainer_new (ex_env Map.empty True) ''sdmc'' ''game.app''\<lparr>is_loaded := True\<rparr>) =
     (False, NCCHContainer_new (ex_env Map.empty True) ''sdmc'' ''game.app''\<lparr>is_loaded := True\<rparr>)"
  using Load_not_open [of "NCCHContainer_new (ex_env Map.empty True) ''sdmc'' ''game.app''"
      "ex_env Map.empty True" 5]
  by (simp add: NCCHContainer_new_def ex_env_def ex_open_def)

subsection \<open>\<^verbatim>\<open>ReadExtdataId\<close>\<close>

text \<open>
  Claim C10. \<^verbatim>\<open>ReadExtdataId\<close> fails exactly when \<^verbatim>\<open>Load\<close> fails, or no extended header is
  present, or the branch of the alternate identifiers is taken (the attribute byte is
  neither 0 nor 1) and all six are zero; and whenever it fails, the output parameter holds
  the value the caller passed in.
\<close>

theorem ReadExtdataId_failure_keeps_output:
  "(fst (ReadExtdataId E extdata_id c) \<noteq> Success) =
     (fst (Load E c) \<noteq> Success \<or> \<not> has_exheader (snd (Load E c)) \<or>
      (other_attributes (exheader_of E (snd (Load E c))) \<noteq> 0 \<and>
       other_attributes (exheader_of E (snd (Load E c))) \<noteq> 1 \<and>
       (\<forall>i \<in> set (extdata_ids (exheader_of E (snd (Load E c)))). i = 0))) \<and>
   (fst (ReadExtdataId E extdata_id c) \<noteq> Success \<longrightarrow>
      fst (snd (ReadExtdataId E extdata_id c)) = extdata_id)"
proof -
  obtain r c1 where L: "Load E c = (r, c1)" by (cases "Load E c")
  show ?thesis
  proof (cases "first_nonzero (extdata_ids (exheader_of E c1))")
    case None
    then show ?thesis
      using first_nonzero_None [of "extdata_ids (exheader_of E c1)"]
      by (simp add: ReadExtdataId_def L drop_bit_Suc0_u8)
  next
    case (Some i)
    then show ?thesis
      using first_nonzero_None [of "extdata_ids (exheader_of E c1)"]
      by (simp add: ReadExtdataId_def L drop_bit_Suc0_u8)
  qed
qed

text \<open>
  The instances, one for each way to fail, with 99 passed in: a file cut off inside the outer
  header (\<^verbatim>\<open>Load\<close> fails), no file (nothing parsed, so no extended header), and the small
  image with attribute byte 2 and six zero identifiers.
\<close>

theorem ReadExtdataId_failure_keeps_output_witness:
  "fst (ReadExtdataId (ex_env (ex_fs (take 10 (ex_plain 0 [0, 0, 7, 0, 0, 0] 2))) True) 99
          (ex_decoder (take 10 (ex_plain 0 [0, 0, 7, 0, 0, 0] 2)) True)) = Error \<and>
   fst (snd (ReadExtdataId (ex_env (ex_fs (take 10 (ex_plain 0 [0, 0, 7, 0, 0, 0] 2))) True) 99
          (ex_decoder (take 10 (ex_plain 0 [0, 0, 7, 0, 0, 0] 2)) True))) = 99 \<and>
   fst (ReadExtdataId (ex_env Map.empty True) 99
          (NCCHContainer_new (ex_env Map.empty True) ''sdmc'' ''game.app'')) = ErrorNotUsed \<and>
   fst (snd (ReadExtdataId (ex_env Map.empty True) 99
          (NCCHContainer_new (ex_env Map.empty True) ''sdmc'' ''game.app''))) = 99 \<and>
   fst (ReadExtdataId (ex_plain_env 0 [0, 0, 0, 0, 0, 0] 2) 99
          (ex_plain_decoder 0 [0, 0, 0, 0, 0, 0] 2)) = ErrorNotUsed \<and>
   fst (snd (ReadExtdataId (ex_plain_env 0 [0, 0, 0, 0, 0, 0] 2) 99
          (ex_plain_decoder 0 [0, 0, 0, 0, 0, 0] 2))) = 99"
proof -
  let ?E1 = "ex_env (ex_fs (take 10 (ex_plain 0 [0, 0, 7, 0, 0, 0] 2))) True"
  let ?c1 = "ex_decoder (take 10 (ex_plain 0 [0, 0, 7, 0, 0, 0] 2)) True"
  let ?E2 = "ex_env Map.empty True"
  let ?c2 = "NCCHContainer_new (ex_env Map.empty True) ''sdmc'' ''game.app''"
  let ?E3 = "ex_plain_env 0 [0, 0, 0, 0, 0, 0] 2"
  let ?c3 = "ex_plain_decoder 0 [0, 0, 0, 0, 0, 0] 2"
  have a1: "fst (ReadExtdataId ?E1 99 ?c1) = Error" by code_simp
  have a2: "fst (ReadExtdataId ?E2 99 ?c2) = ErrorNotUsed" by code_simp
  have a3: "fst (ReadExtdataId ?E3 99 ?c3) = ErrorNotUsed" by code_simp
  from ReadExtdataId_failure_keeps_output [of ?E1 99 ?c1] a1
  have b1: "fst (snd (ReadExtdataId ?E1 99 ?c1)) = 99" by simp
  from ReadExtdataId_failure_keeps_output [of ?E2 99 ?c2] a2
  have b2: "fst (snd (ReadExtdataId ?E2 99 ?c2)) = 99" by simp
  from ReadExtdataId_failure_keeps_output [of ?E3 99 ?c3] a3
  have b3: "fst (snd (ReadExtdataId ?E3 99 ?c3)) = 99" by simp
  from a1 a2 a3 b1 b2 b3 show ?thesis by simp
qed

text \<open>
  Claim C3, as stated, fails. The test of line 269 is
  \<^verbatim>\<open>other_attributes >> 1\<close>, which drops bit 0. The small image with attribute byte 1 (bit 0
  set, nothing else), alternate identifiers 0, 0, 7, 0, 0, 0 and legacy identifier 0, read
  with 99 in the output parameter: \<^verbatim>\<open>ReadExtdataId\<close> takes the legacy branch and returns
  the legacy identifier 0, not 7.
\<close>

theorem ReadExtdataId_bit0_counterexample:
  "fst (Load (ex_plain_env 0 [0, 0, 7, 0, 0, 0] 1) (ex_plain_decoder 0 [0, 0, 7, 0, 0, 0] 1)) = Success \<and>
   has_exheader (snd (Load (ex_plain_env 0 [0, 0, 7, 0, 0, 0] 1) (ex_plain_decoder 0 [0, 0, 7, 0, 0, 0] 1))) \<and>
   bit (other_attributes (exheader_of (ex_plain_env 0 [0, 0, 7, 0, 0, 0] 1)
          (snd (Load (ex_plain_env 0 [0, 0, 7, 0, 0, 0] 1) (ex_plain_decoder 0 [0, 0, 7, 0, 0, 0] 1))))) 0 \<and>
   extdata_ids (exheader_of (ex_plain_env 0 [0, 0, 7, 0, 0, 0] 1)
          (snd (Load (ex_plain_env 0 [0, 0, 7, 0, 0, 0] 1) (ex_plain_decoder 0 [0, 0, 7, 0, 0, 0] 1)))) =
     [0, 0, 7, 0, 0, 0] \<and>
   fst (ReadExtdataId (ex_plain_env 0 [0, 0, 7, 0, 0, 0] 1) 99 (ex_plain_decoder 0 [0, 0, 7, 0, 0, 0] 1)) = Success \<and>
   fst (snd (ReadExtdataId (ex_plain_env 0 [0, 0, 7, 0, 0, 0] 1) 99 (ex_plain_decoder 0 [0, 0, 7, 0, 0, 0] 1))) = 0 \<and>
   fst (snd (ReadExtdataId (ex_plain_env 0 [0, 0, 7, 0, 0, 0] 1) 99 (ex_plain_decoder 0 [0, 0, 7, 0, 0, 0] 1))) \<noteq> 7"
  by code_simp

text \<open>
  Claim C3, amended. On a loaded container with an extended header \<^verbatim>\<open>ReadExtdataId\<close>
  branches on the attribute byte shifted right by one bit, so that bit 0 plays no part: when
  the byte is 0 or 1 it returns the legacy identifier, also when that is zero; when any
  other bit is set it returns the first non-zero of the six alternate identifiers in the
  order 0 to 5, and fails with \<open>ErrorNotUsed\<close>, the output untouched, when all six are zero.
\<close>

theorem ReadExtdataId_branches:
  assumes "Load E c = (Success, c1)" "has_exheader c1"
  shows "ReadExtdataId E extdata_id c =
           (if other_attributes (exheader_of E c1) = 0 \<or> other_attributes (exheader_of E c1) = 1
            then (Success, ext_save_data_id (exheader_of E c1), c1)
            else case find (\<lambda>i. i \<noteq> 0) (extdata_ids (exheader_of E c1)) of
                   Some i \<Rightarrow> (Success, i, c1)
                 | None \<Rightarrow> (ErrorNotUsed, extdata_id, c1))"
  using assms by (simp add: ReadExtdataId_def drop_bit_Suc0_u8 first_nonzero_find)

text \<open>
  The instances: attribute byte 2 with the identifiers 0, 0, 7, 0, 0, 0 gives 7; attribute
  byte 0 with the legacy identifier 42 gives 42, whatever the alternate identifiers.
\<close>

theorem ReadExtdataId_branches_witness:
  "fst (snd (ReadExtdataId (ex_plain_env 0 [0, 0, 7, 0, 0, 0] 2) 0 (ex_plain_decoder 0 [0, 0, 7, 0, 0, 0] 2))) = 7 \<and>
   fst (snd (ReadExtdataId (ex_plain_env 42 [0, 0, 0, 0, 0, 42] 0) 0 (ex_plain_decoder 42 [0, 0, 0, 0, 0, 42] 0))) = 42"
proof -
  let ?E = "ex_plain_env 0 [0, 0, 7, 0, 0, 0] 2"
  let ?c = "ex_plain_decoder 0 [0, 0, 7, 0, 0, 0] 2"
  let ?E' = "ex_plain_env 42 [0, 0, 0, 0, 0, 42] 0"
  let ?c' = "ex_plain_decoder 42 [0, 0, 0, 0, 0, 42] 0"
  have "fst (Load ?E ?c) = Success" by code_simp
  then have L: "Load ?E ?c = (Success, snd (Load ?E ?c))" by (metis prod.collapse)
  have H: "has_exheader (snd (Load ?E ?c))" by code_simp
  have A: "other_attributes (exheader_of ?E (snd (Load ?E ?c))) = 2" by code_simp
  have I: "extdata_ids (exheader_of ?E (snd (Load ?E ?c))) = [0, 0, 7, 0, 0, 0]" by code_simp
  have "fst (Load ?E' ?c') = Success" by code_simp
  then have L': "Load ?E' ?c' = (Success, snd (Load ?E' ?c'))" by (metis prod.collapse)
  have H': "has_exheader (snd (Load ?E' ?c'))" by code_simp
  have A': "other_attributes (exheader_of ?E' (snd (Load ?E' ?c'))) = 0" by code_simp
  have I': "ext_save_data_id (exheader_of ?E' (snd (Load ?E' ?c'))) = 42" by code_simp
  from ReadExtdataId_branches [OF L H, of 0] A I
  have r: "fst (snd (ReadExtdataId ?E 0 ?c)) = 7" by simp
  from ReadExtdataId_branches [OF L' H', of 0] A' I'
  have r': "fst (snd (ReadExtdataId ?E' 0 ?c')) = 42" by simp
  from r r' show ?thesis by simp
qed

subsection \<open>The extended header: self-correction and the pending failure\<close>

text \<open>
  Claim C1. A container whose outer header can be read, has the encryption flag set (the
  no-crypto bit clear) and declares an extended header that can be read: if the low 32 bits
  of the jump identifier of the extended header, as read from the byte source, equal those of
  the program identifier, then after \<^verbatim>\<open>Load\<close> the decoder is marked as not encrypted,
  whatever \<^verbatim>\<open>Load\<close> returns. The extended header it holds is the bytes as read. If no ExeFS
  is declared, or one is declared and its header can be read, \<^verbatim>\<open>Load\<close> returns \<open>Success\<close>, and
  the ExeFS header it holds is the bytes as read: no cipher was applied, whatever the cipher
  is. A later \<^verbatim>\<open>LoadSectionExeFS\<close> that succeeds returns the bytes of the matching section as
  they are in the byte source.
\<close>

theorem Load_self_correction:
  assumes "header_readable E c" "\<not> no_crypto (file_header E c)"
    and "extended_header_size (file_header E c) \<noteq> 0" "exheader_readable E c"
    and "jump_id_matches (file_exheader E c) (file_header E c)"
  shows "\<not> is_encrypted (snd (Load E c)) \<and>
         exheader_header (snd (Load E c)) = file_exheader_bytes E c \<and>
         (hdr_exefs_size (file_header E c) = 0 \<longrightarrow> fst (Load E c) = Success) \<and>
         (hdr_exefs_size (file_header E c) \<noteq> 0 \<and> exefs_readable E c \<longrightarrow>
            fst (Load E c) = Success \<and> exefs_header (snd (Load E c)) = file_exefs_bytes E c) \<and>
         (fst (Load E c) = Success \<and>
          fst (LoadSectionExeFS E name buffer (snd (Load E c))) = Success \<longrightarrow>
            (\<exists>s. find (\<lambda>s. strcmp_eq (sec_name s) name)
                    (take kMaxSections (sections (exefs_of E (snd (Load E c))))) = Some s \<and>
                 fst (snd (LoadSectionExeFS E name buffer (snd (Load E c)))) =
                   take (unat (sec_size s))
                     (drop (unat (sec_offset s + exefs_offset (snd (Load E c))) + sizeof_ExeFs_Header E)
                        (content (exefs_file (snd (Load E c)))))))"
proof -
  let ?c1 = "snd (Load E c)"
  have a: "\<not> is_encrypted ?c1 \<and> exheader_header ?c1 = file_exheader_bytes E c"
    using assms(2,3,5)
    by (simp add: Load_open [OF assms(1)] Load_exheader_readable [OF assms(1,3,4)] Let_def
        Load_tail_frame)
  have b: "hdr_exefs_size (file_header E c) = 0 \<Longrightarrow> fst (Load E c) = Success"
    using assms(2,3,5)
    by (simp add: Load_open [OF assms(1)] Load_exheader_readable [OF assms(1,3,4)] Let_def
        Load_exefs_absent crypto_state)
  have d: "hdr_exefs_size (file_header E c) \<noteq> 0 \<Longrightarrow> exefs_readable E c \<Longrightarrow>
      fst (Load E c) = Success \<and> exefs_header ?c1 = file_exefs_bytes E c"
    using assms(2,3,5)
    by (simp add: Load_open [OF assms(1)] Load_exheader_readable [OF assms(1,3,4)] Let_def
        Load_exefs_present crypto_state exefs_readable_def file_exefs_offset_def
        file_exefs_bytes_def)
  have e: "\<exists>s. find (\<lambda>s. strcmp_eq (sec_name s) name)
                 (take kMaxSections (sections (exefs_of E ?c1))) = Some s \<and>
               fst (snd (LoadSectionExeFS E name buffer ?c1)) =
                 take (unat (sec_size s))
                   (drop (unat (sec_offset s + exefs_offset ?c1) + sizeof_ExeFs_Header E)
                      (content (exefs_file ?c1)))"
    if ok: "fst (Load E c) = Success"
      and rd: "fst (LoadSectionExeFS E name buffer ?c1) = Success"
  proof -
    from ok have "Load E c = (Success, ?c1)" by (metis prod.collapse)
    then have "is_loaded ?c1" by (rule Load_Success_is_loaded)
    then have L: "Load E ?c1 = (Success, ?c1)" by (rule Load_is_loaded)
    have op: "IsOpen (exefs_file ?c1)"
      using rd by (auto simp: LoadSectionExeFS_def L split: if_splits)
    show ?thesis
    proof (cases "find (\<lambda>s. strcmp_eq (sec_name s) name)
                    (take kMaxSections (sections (exefs_of E ?c1)))")
      case None
      with rd show ?thesis by (simp add: LoadSectionExeFS_find [OF L op])
    next
      case (Some s)
      with rd a show ?thesis
        by (auto simp: LoadSectionExeFS_find [OF L op] read_section_eq Let_def split: if_splits)
    qed
  qed
  from a b d e show ?thesis by blast
qed

text \<open>
  The instance: the example image with the encryption flag set (flag byte 0) and the jump
  identifier \<open>0x000000FF12345678\<close>, whose low half is that of the program identifier; the
  section \<open>banner\<close> is returned as its 20 bytes are in the image, the values 11 to 30.
\<close>

theorem Load_self_correction_witness:
  "\<not> is_encrypted
       (snd (Load (ex_env (ex_fs (ex_image 0 0 [0x78, 0x56, 0x34, 0x12, 0xFF, 0, 0, 0])) True)
               (ex_decoder (ex_image 0 0 [0x78, 0x56, 0x34, 0x12, 0xFF, 0, 0, 0]) True))) \<and>
   fst (Load (ex_env (ex_fs (ex_image 0 0 [0x78, 0x56, 0x34, 0x12, 0xFF, 0, 0, 0])) True)
          (ex_decoder (ex_image 0 0 [0x78, 0x56, 0x34, 0x12, 0xFF, 0, 0, 0]) True)) = Success \<and>
   exefs_header
       (snd (Load (ex_env (ex_fs (ex_image 0 0 [0x78, 0x56, 0x34, 0x12, 0xFF, 0, 0, 0])) True)
               (ex_decoder (ex_image 0 0 [0x78, 0x56, 0x34, 0x12, 0xFF, 0, 0, 0]) True))) =
     take 128 ex_exefs_bytes \<and>
   fst (snd (LoadSectionExeFS
               (ex_env (ex_fs (ex_image 0 0 [0x78, 0x56, 0x34, 0x12, 0xFF, 0, 0, 0])) True)
               ''banner'' []
               (snd (Load (ex_env (ex_fs (ex_image 0 0 [0x78, 0x56, 0x34, 0x12, 0xFF, 0, 0, 0])) True)
                       (ex_decoder (ex_image 0 0 [0x78, 0x56, 0x34, 0x12, 0xFF, 0, 0, 0]) True))))) =
     map of_nat [11 ..< 31]"
proof -
  let ?E = "ex_env (ex_fs (ex_image 0 0 [0x78, 0x56, 0x34, 0x12, 0xFF, 0, 0, 0])) True"
  let ?c = "ex_decoder (ex_image 0 0 [0x78, 0x56, 0x34, 0x12, 0xFF, 0, 0, 0]) True"
  have h1: "header_readable ?E ?c" by code_simp
  have h2: "\<not> no_crypto (file_header ?E ?c)" by code_simp
  have h3: "extended_header_size (file_header ?E ?c) \<noteq> 0" by code_simp
  have h4: "exheader_readable ?E ?c" by code_simp
  have h5: "jump_id_matches (file_exheader ?E ?c) (file_header ?E ?c)" by code_simp
  have h6: "hdr_exefs_size (file_header ?E ?c) \<noteq> 0 \<and> exefs_readable ?E ?c" by code_simp
  have h7: "file_exefs_bytes ?E ?c = take 128 ex_exefs_bytes" by code_simp
  have h8: "fst (snd (LoadSectionExeFS ?E ''banner'' [] (snd (Load ?E ?c)))) = map of_nat [11 ..< 31]"
    by code_simp
  from Load_self_correction [OF h1 h2 h3 h4 h5, of "''banner''" "[]"] h6 h7 h8
  show ?thesis by simp
qed

text \<open>
  Claim C2, as stated, fails. The comparison of the jump identifier (line 143) comes before
  the test of the pending failure (line 149). The small image with the encryption flag set,
  no fixed key, the key of slot Secure1 not available and a jump identifier whose low half
  is that of the program identifier: a failure is pending and an extended header exists, and
  \<^verbatim>\<open>Load\<close> returns \<open>Success\<close>.
\<close>

theorem Load_pending_failure_counterexample:
  "header_readable (ex_env (ex_fs (ex_small 0 0 [0x78, 0x56, 0x34, 0x12, 0xFF, 0, 0, 0] [0, 0, 7, 0, 0, 0] 0)) False)
     (ex_decoder (ex_small 0 0 [0x78, 0x56, 0x34, 0x12, 0xFF, 0, 0, 0] [0, 0, 7, 0, 0, 0] 0) False) \<and>
   \<not> no_crypto (file_header
     (ex_env (ex_fs (ex_small 0 0 [0x78, 0x56, 0x34, 0x12, 0xFF, 0, 0, 0] [0, 0, 7, 0, 0, 0] 0)) False)
     (ex_decoder (ex_small 0 0 [0x78, 0x56, 0x34, 0x12, 0xFF, 0, 0, 0] [0, 0, 7, 0, 0, 0] 0) False)) \<and>
   extended_header_size (file_header
     (ex_env (ex_fs (ex_small 0 0 [0x78, 0x56, 0x34, 0x12, 0xFF, 0, 0, 0] [0, 0, 7, 0, 0, 0] 0)) False)
     (ex_decoder (ex_small 0 0 [0x78, 0x56, 0x34, 0x12, 0xFF, 0, 0, 0] [0, 0, 7, 0, 0, 0] 0) False)) \<noteq> 0 \<and>
   exheader_readable (ex_env (ex_fs (ex_small 0 0 [0x78, 0x56, 0x34, 0x12, 0xFF, 0, 0, 0] [0, 0, 7, 0, 0, 0] 0)) False)
     (ex_decoder (ex_small 0 0 [0x78, 0x56, 0x34, 0x12, 0xFF, 0, 0, 0] [0, 0, 7, 0, 0, 0] 0) False) \<and>
   key_missing (ex_env (ex_fs (ex_small 0 0 [0x78, 0x56, 0x34, 0x12, 0xFF, 0, 0, 0] [0, 0, 7, 0, 0, 0] 0)) False)
     (file_header
       (ex_env (ex_fs (ex_small 0 0 [0x78, 0x56, 0x34, 0x12, 0xFF, 0, 0, 0] [0, 0, 7, 0, 0, 0] 0)) False)
       (ex_decoder (ex_small 0 0 [0x78, 0x56, 0x34, 0x12, 0xFF, 0, 0, 0] [0, 0, 7, 0, 0, 0] 0) False)) \<and>
   fst (Load_crypto
     (ex_env (ex_fs (ex_small 0 0 [0x78, 0x56, 0x34, 0x12, 0xFF, 0, 0, 0] [0, 0, 7, 0, 0, 0] 0)) False)
     (after_header
       (ex_env (ex_fs (ex_small 0 0 [0x78, 0x56, 0x34, 0x12, 0xFF, 0, 0, 0] [0, 0, 7, 0, 0, 0] 0)) False)
       (ex_decoder (ex_small 0 0 [0x78, 0x56, 0x34, 0x12, 0xFF, 0, 0, 0] [0, 0, 7, 0, 0, 0] 0) False))) \<and>
   fst (Load (ex_env (ex_fs (ex_small 0 0 [0x78, 0x56, 0x34, 0x12, 0xFF, 0, 0, 0] [0, 0, 7, 0, 0, 0] 0)) False)
     (ex_decoder (ex_small 0 0 [0x78, 0x56, 0x34, 0x12, 0xFF, 0, 0, 0] [0, 0, 7, 0, 0, 0] 0) False)) = Success \<and>
   fst (Load (ex_env (ex_fs (ex_small 0 0 [0x78, 0x56, 0x34, 0x12, 0xFF, 0, 0, 0] [0, 0, 7, 0, 0, 0] 0)) False)
     (ex_decoder (ex_small 0 0 [0x78, 0x56, 0x34, 0x12, 0xFF, 0, 0, 0] [0, 0, 7, 0, 0, 0] 0) False)) \<noteq> ErrorEncrypted"
  by code_simp

text \<open>
  Claim C2, amended. For a container whose outer header can be read, and whose extended
  header, if one is declared, can be read, \<^verbatim>\<open>Load\<close> fails with \<open>ErrorEncrypted\<close> exactly when
  an extended header is declared, the encryption flag is set, a failure is pending (the key
  of slot Secure1 is missing or the version is none of 0, 1, 2), and the comparison of the
  jump identifier as read with the program identifier, which is made first, finds the low
  32 bits different. It then returns before any decryption: the extended header the decoder
  holds is the bytes as read, the decoder stays marked as encrypted and is not loaded.
\<close>

theorem Load_pending_failure:
  assumes "header_readable E c"
    and "extended_header_size (file_header E c) \<noteq> 0 \<longrightarrow> exheader_readable E c"
  shows "(fst (Load E c) = ErrorEncrypted) =
           (extended_header_size (file_header E c) \<noteq> 0 \<and> \<not> no_crypto (file_header E c) \<and>
            (key_missing E (file_header E c) \<or> version_unknown (file_header E c)) \<and>
            \<not> jump_id_matches (file_exheader E c) (file_header E c)) \<and>
         (fst (Load E c) = ErrorEncrypted \<longrightarrow>
            exheader_header (snd (Load E c)) = file_exheader_bytes E c \<and>
            is_encrypted (snd (Load E c)) \<and> \<not> is_loaded (snd (Load E c)))"
proof (cases "extended_header_size (file_header E c) = 0")
  case True
  then show ?thesis
    by (simp add: Load_open [OF assms(1)] Load_exheader_absent crypto_state Load_tail_status)
next
  case False
  with assms(2) have r: "exheader_readable E c" by simp
  have "\<not> is_loaded c" using assms(1) by (simp add: header_readable_def)
  then have n: "\<not> is_loaded (snd (Load_crypto E (after_header E c)))"
    by (simp add: Load_crypto_frame after_header_def)
  show ?thesis
    using False n
    by (simp add: Load_open [OF assms(1)] Load_exheader_readable [OF assms(1) False r] Let_def
        crypto_state Load_tail_status)
qed

text \<open>
  The instance: the image of the counterexample with another jump identifier, so that the
  comparison fails.
\<close>

theorem Load_pending_failure_witness:
  "fst (Load (ex_env (ex_fs (ex_small 0 0 [1, 1, 1, 1, 0, 0, 0, 0] [0, 0, 7, 0, 0, 0] 0)) False)
          (ex_decoder (ex_small 0 0 [1, 1, 1, 1, 0, 0, 0, 0] [0, 0, 7, 0, 0, 0] 0) False)) = ErrorEncrypted \<and>
   exheader_header
     (snd (Load (ex_env (ex_fs (ex_small 0 0 [1, 1, 1, 1, 0, 0, 0, 0] [0, 0, 7, 0, 0, 0] 0)) False)
          (ex_decoder (ex_small 0 0 [1, 1, 1, 1, 0, 0, 0, 0] [0, 0, 7, 0, 0, 0] 0) False))) =
     ex_exheader_bytes [1, 1, 1, 1, 0, 0, 0, 0] 42 [0, 0, 7, 0, 0, 0] 0 \<and>
   is_encrypted
     (snd (Load (ex_env (ex_fs (ex_small 0 0 [1, 1, 1, 1, 0, 0, 0, 0] [0, 0, 7, 0, 0, 0] 0)) False)
          (ex_decoder (ex_small 0 0 [1, 1, 1, 1, 0, 0, 0, 0] [0, 0, 7, 0, 0, 0] 0) False))) \<and>
   \<not> is_loaded
     (snd (Load (ex_env (ex_fs (ex_small 0 0 [1, 1, 1, 1, 0, 0, 0, 0] [0, 0, 7, 0, 0, 0] 0)) False)
          (ex_decoder (ex_small 0 0 [1, 1, 1, 1, 0, 0, 0, 0] [0, 0, 7, 0, 0, 0] 0) False)))"
proof -
  let ?E = "ex_env (ex_fs (ex_small 0 0 [1, 1, 1, 1, 0, 0, 0, 0] [0, 0, 7, 0, 0, 0] 0)) False"
  let ?c = "ex_decoder (ex_small 0 0 [1, 1, 1, 1, 0, 0, 0, 0] [0, 0, 7, 0, 0, 0] 0) False"
  have h1: "header_readable ?E ?c" by code_simp
  have h2: "exheader_readable ?E ?c" by code_simp
  have h3: "extended_header_size (file_header ?E ?c) \<noteq> 0 \<and> \<not> no_crypto (file_header ?E ?c) \<and>
            key_missing ?E (file_header ?E ?c) \<and>
            \<not> jump_id_matches (file_exheader ?E ?c) (file_header ?E ?c)" by code_simp
  have h4: "file_exheader_bytes ?E ?c = ex_exheader_bytes [1, 1, 1, 1, 0, 0, 0, 0] 42 [0, 0, 7, 0, 0, 0] 0"
    by code_simp
  from Load_pending_failure [of ?E ?c] h1 h2 h3 h4 show ?thesis by simp
qed

subsection \<open>A version that is none of 0, 1, 2\<close>

text \<open>
  Claim C7, as stated, fails in its first part. The version is looked at only where the
  encryption flag is set (line 67); with the no-crypto flag \<^verbatim>\<open>Load\<close> goes to line 126 and
  \<^verbatim>\<open>failed_to_decrypt\<close> stays false. The small image of version 3 with the no-crypto flag:
  no pending failure is recorded, and \<^verbatim>\<open>Load\<close> returns \<open>Success\<close>.
\<close>

theorem Load_unknown_version_counterexample:
  "header_readable (ex_env (ex_fs (ex_small 3 4 [1, 1, 1, 1, 0, 0, 0, 0] [0, 0, 7, 0, 0, 0] 0)) True)
     (ex_decoder (ex_small 3 4 [1, 1, 1, 1, 0, 0, 0, 0] [0, 0, 7, 0, 0, 0] 0) True) \<and>
   version (file_header (ex_env (ex_fs (ex_small 3 4 [1, 1, 1, 1, 0, 0, 0, 0] [0, 0, 7, 0, 0, 0] 0)) True)
     (ex_decoder (ex_small 3 4 [1, 1, 1, 1, 0, 0, 0, 0] [0, 0, 7, 0, 0, 0] 0) True)) = 3 \<and>
   version_unknown (file_header (ex_env (ex_fs (ex_small 3 4 [1, 1, 1, 1, 0, 0, 0, 0] [0, 0, 7, 0, 0, 0] 0)) True)
     (ex_decoder (ex_small 3 4 [1, 1, 1, 1, 0, 0, 0, 0] [0, 0, 7, 0, 0, 0] 0) True)) \<and>
   no_crypto (file_header (ex_env (ex_fs (ex_small 3 4 [1, 1, 1, 1, 0, 0, 0, 0] [0, 0, 7, 0, 0, 0] 0)) True)
     (ex_decoder (ex_small 3 4 [1, 1, 1, 1, 0, 0, 0, 0] [0, 0, 7, 0, 0, 0] 0) True)) \<and>
   \<not> fst (Load_crypto (ex_env (ex_fs (ex_small 3 4 [1, 1, 1, 1, 0, 0, 0, 0] [0, 0, 7, 0, 0, 0] 0)) True)
     (after_header (ex_env (ex_fs (ex_small 3 4 [1, 1, 1, 1, 0, 0, 0, 0] [0, 0, 7, 0, 0, 0] 0)) True)
        (ex_decoder (ex_small 3 4 [1, 1, 1, 1, 0, 0, 0, 0] [0, 0, 7, 0, 0, 0] 0) True))) \<and>
   fst (Load (ex_env (ex_fs (ex_small 3 4 [1, 1, 1, 1, 0, 0, 0, 0] [0, 0, 7, 0, 0, 0] 0)) True)
     (ex_decoder (ex_small 3 4 [1, 1, 1, 1, 0, 0, 0, 0] [0, 0, 7, 0, 0, 0] 0) True)) = Success"
  by code_simp

text \<open>
  Claim C7, amended. For a container whose outer header can be read and whose version is
  none of 0, 1, 2, and whose extended header and ExeFS header, where declared, can be read:
  \<^verbatim>\<open>Load\<close> records the pending failure exactly when the encryption flag is set (with the
  no-crypto flag it does not look at the version), and does not stop at the version. It
  returns \<open>ErrorEncrypted\<close> when the pending failure blocks the decryption of a present
  extended header (one is declared, the encryption flag is set, and the comparison of the
  jump identifier does not reclassify the container), and \<open>Success\<close> in every other case: no
  extended header declared, or the no-crypto flag set, or the jump identifier matching. When
  it returns \<open>Success\<close> it has parsed all there is: the decoder is loaded and holds the outer
  header; where an extended header is declared, the decoder has the flag for it and holds
  its bytes as read; where an ExeFS is declared, the decoder has the flag for it, its byte
  offset, its file, and its header, as read where the decoder ends not encrypted and put
  through the cipher where it ends encrypted, which is the case of the encryption flag with
  no extended header declared.
\<close>

theorem Load_unknown_version:
  assumes "header_readable E c" "version_unknown (file_header E c)"
    and "extended_header_size (file_header E c) \<noteq> 0 \<longrightarrow> exheader_readable E c"
    and "hdr_exefs_size (file_header E c) \<noteq> 0 \<longrightarrow> exefs_readable E c"
  shows "fst (Load_crypto E (after_header E c)) = (\<not> no_crypto (file_header E c)) \<and>
         fst (Load E c) =
           (if extended_header_size (file_header E c) \<noteq> 0 \<and> \<not> no_crypto (file_header E c) \<and>
               \<not> jump_id_matches (file_exheader E c) (file_header E c)
            then ErrorEncrypted else Success) \<and>
         (fst (Load E c) = Success \<longrightarrow>
            is_loaded (snd (Load E c)) \<and> has_header (snd (Load E c)) \<and>
            ncch_header (snd (Load E c)) = file_header_bytes E c \<and>
            is_encrypted (snd (Load E c)) =
              (\<not> no_crypto (file_header E c) \<and> extended_header_size (file_header E c) = 0) \<and>
            (extended_header_size (file_header E c) \<noteq> 0 \<longrightarrow>
               has_exheader (snd (Load E c)) \<and>
               exheader_header (snd (Load E c)) = file_exheader_bytes E c) \<and>
            (hdr_exefs_size (file_header E c) \<noteq> 0 \<longrightarrow>
               has_exefs (snd (Load E c)) \<and>
               exefs_offset (snd (Load E c)) = hdr_exefs_offset (file_header E c) * kBlockSize \<and>
               exefs_file (snd (Load E c)) = open_SDMCFile E (root_folder c) (filepath c) \<and>
               exefs_header (snd (Load E c)) =
                 (if is_encrypted (snd (Load E c))
                  then CTR_Decryption E (primary_key (snd (Load E c))) (exefs_ctr (snd (Load E c))) 0
                         (file_exefs_bytes E c)
                  else file_exefs_bytes E c)))"
proof -
  let ?c2 = "snd (Load_crypto E (after_header E c))"
  let ?h = "file_header E c"
  have rec: "fst (Load_crypto E (after_header E c)) = (\<not> no_crypto ?h)"
    using assms(2) by (simp add: crypto_state)
  have rest: "fst (Load E c) =
           (if extended_header_size ?h \<noteq> 0 \<and> \<not> no_crypto ?h \<and>
               \<not> jump_id_matches (file_exheader E c) ?h
            then ErrorEncrypted else Success) \<and>
         (fst (Load E c) = Success \<longrightarrow>
            is_loaded (snd (Load E c)) \<and> has_header (snd (Load E c)) \<and>
            ncch_header (snd (Load E c)) = file_header_bytes E c \<and>
            is_encrypted (snd (Load E c)) = (\<not> no_crypto ?h \<and> extended_header_size ?h = 0) \<and>
            (extended_header_size ?h \<noteq> 0 \<longrightarrow>
               has_exheader (snd (Load E c)) \<and>
               exheader_header (snd (Load E c)) = file_exheader_bytes E c) \<and>
            (hdr_exefs_size ?h \<noteq> 0 \<longrightarrow>
               has_exefs (snd (Load E c)) \<and>
               exefs_offset (snd (Load E c)) = hdr_exefs_offset ?h * kBlockSize \<and>
               exefs_file (snd (Load E c)) = open_SDMCFile E (root_folder c) (filepath c) \<and>
               exefs_header (snd (Load E c)) =
                 (if is_encrypted (snd (Load E c))
                  then CTR_Decryption E (primary_key (snd (Load E c))) (exefs_ctr (snd (Load E c))) 0
                         (file_exefs_bytes E c)
                  else file_exefs_bytes E c)))"
  proof (cases "extended_header_size ?h = 0")
    case True
    then have x: "Load_exheader E failed ?c2 = (None, ?c2)" for failed
      by (simp add: Load_exheader_absent crypto_state)
    show ?thesis
    proof (cases "hdr_exefs_size ?h = 0")
      case True
      then show ?thesis using \<open>extended_header_size ?h = 0\<close>
        by (simp add: Load_open [OF assms(1)] x Load_exefs_absent crypto_state crypto_state_more)
    next
      case False
      with assms(4) have "exefs_readable E c" by simp
      then show ?thesis using \<open>extended_header_size ?h = 0\<close> False
        by (simp add: Load_open [OF assms(1)] x Load_exefs_present crypto_state crypto_state_more
            exefs_readable_def file_exefs_offset_def file_exefs_bytes_def Let_def)
    qed
  next
    case False
    with assms(3) have r: "exheader_readable E c" by simp
    note x = Load_exheader_readable [OF assms(1) False r]
    show ?thesis
    proof (cases "hdr_exefs_size ?h = 0")
      case True
      then show ?thesis using False assms(2)
        by (simp add: Load_open [OF assms(1)] x Load_exefs_absent crypto_state crypto_state_more Let_def)
    next
      case False
      with assms(4) have "exefs_readable E c" by simp
      then show ?thesis using \<open>extended_header_size ?h \<noteq> 0\<close> False assms(2)
        by (simp add: Load_open [OF assms(1)] x Load_exefs_present crypto_state crypto_state_more
            exefs_readable_def file_exefs_offset_def file_exefs_bytes_def Let_def)
    qed
  qed
  from rec rest show ?thesis by blast
qed

text \<open>
  The instances, all of version 3. The example image with the no-crypto flag: nothing is
  recorded, \<^verbatim>\<open>Load\<close> succeeds and has parsed the extended header and the ExeFS, whose header
  it holds as read. The small image with the encryption flag and a matching jump identifier:
  the failure is recorded and \<^verbatim>\<open>Load\<close> succeeds. The same with another jump identifier: the
  failure blocks the decryption. An image with the encryption flag that declares no
  extended header: \<^verbatim>\<open>Load\<close> succeeds and the decoder stays encrypted.
\<close>

theorem Load_unknown_version_witness:
  "\<not> fst (Load_crypto (ex_env (ex_fs (ex_image 3 4 [1, 1, 1, 1, 0, 0, 0, 0])) True)
          (after_header (ex_env (ex_fs (ex_image 3 4 [1, 1, 1, 1, 0, 0, 0, 0])) True)
             (ex_decoder (ex_image 3 4 [1, 1, 1, 1, 0, 0, 0, 0]) True))) \<and>
   fst (Load (ex_env (ex_fs (ex_image 3 4 [1, 1, 1, 1, 0, 0, 0, 0])) True)
          (ex_decoder (ex_image 3 4 [1, 1, 1, 1, 0, 0, 0, 0]) True)) = Success \<and>
   has_exheader (snd (Load (ex_env (ex_fs (ex_image 3 4 [1, 1, 1, 1, 0, 0, 0, 0])) True)
          (ex_decoder (ex_image 3 4 [1, 1, 1, 1, 0, 0, 0, 0]) True))) \<and>
   has_exefs (snd (Load (ex_env (ex_fs (ex_image 3 4 [1, 1, 1, 1, 0, 0, 0, 0])) True)
          (ex_decoder (ex_image 3 4 [1, 1, 1, 1, 0, 0, 0, 0]) True))) \<and>
   exefs_offset (snd (Load (ex_env (ex_fs (ex_image 3 4 [1, 1, 1, 1, 0, 0, 0, 0])) True)
          (ex_decoder (ex_image 3 4 [1, 1, 1, 1, 0, 0, 0, 0]) True))) = 512 \<and>
   exefs_header (snd (Load (ex_env (ex_fs (ex_image 3 4 [1, 1, 1, 1, 0, 0, 0, 0])) True)
          (ex_decoder (ex_image 3 4 [1, 1, 1, 1, 0, 0, 0, 0]) True))) = take 128 ex_exefs_bytes \<and>
   fst (Load_crypto (ex_env (ex_fs (ex_small 3 0 [0x78, 0x56, 0x34, 0x12, 0xFF, 0, 0, 0] [0, 0, 7, 0, 0, 0] 0)) True)
          (after_header (ex_env (ex_fs (ex_small 3 0 [0x78, 0x56, 0x34, 0x12, 0xFF, 0, 0, 0] [0, 0, 7, 0, 0, 0] 0)) True)
             (ex_decoder (ex_small 3 0 [0x78, 0x56, 0x34, 0x12, 0xFF, 0, 0, 0] [0, 0, 7, 0, 0, 0] 0) True))) \<and>
   fst (Load (ex_env (ex_fs (ex_small 3 0 [0x78, 0x56, 0x34, 0x12, 0xFF, 0, 0, 0] [0, 0, 7, 0, 0, 0] 0)) True)
          (ex_decoder (ex_small 3 0 [0x78, 0x56, 0x34, 0x12, 0xFF, 0, 0, 0] [0, 0, 7, 0, 0, 0] 0) True)) = Success \<and>
   fst (Load (ex_env (ex_fs (ex_small 3 0 [1, 1, 1, 1, 0, 0, 0, 0] [0, 0, 7, 0, 0, 0] 0)) True)
          (ex_decoder (ex_small 3 0 [1, 1, 1, 1, 0, 0, 0, 0] [0, 0, 7, 0, 0, 0] 0) True)) = ErrorEncrypted \<and>
   fst (Load (ex_env (ex_fs (ex_ncch_bytes [1, 2, 3, 4, 5, 6, 7, 8] 3 0 [0x78, 0x56, 0x34, 0x12, 0, 0, 4, 0] 0 0 0 0)) True)
          (ex_decoder (ex_ncch_bytes [1, 2, 3, 4, 5, 6, 7, 8] 3 0 [0x78, 0x56, 0x34, 0x12, 0, 0, 4, 0] 0 0 0 0) True)) = Success \<and>
   is_encrypted
     (snd (Load (ex_env (ex_fs (ex_ncch_bytes [1, 2, 3, 4, 5, 6, 7, 8] 3 0 [0x78, 0x56, 0x34, 0x12, 0, 0, 4, 0] 0 0 0 0)) True)
          (ex_decoder (ex_ncch_bytes [1, 2, 3, 4, 5, 6, 7, 8] 3 0 [0x78, 0x56, 0x34, 0x12, 0, 0, 4, 0] 0 0 0 0) True)))"
proof -
  let ?E1 = "ex_env (ex_fs (ex_image 3 4 [1, 1, 1, 1, 0, 0, 0, 0])) True"
  let ?c1 = "ex_decoder (ex_image 3 4 [1, 1, 1, 1, 0, 0, 0, 0]) True"
  let ?E2 = "ex_env (ex_fs (ex_small 3 0 [0x78, 0x56, 0x34, 0x12, 0xFF, 0, 0, 0] [0, 0, 7, 0, 0, 0] 0)) True"
  let ?c2 = "ex_decoder (ex_small 3 0 [0x78, 0x56, 0x34, 0x12, 0xFF, 0, 0, 0] [0, 0, 7, 0, 0, 0] 0) True"
  let ?E3 = "ex_env (ex_fs (ex_small 3 0 [1, 1, 1, 1, 0, 0, 0, 0] [0, 0, 7, 0, 0, 0] 0)) True"
  let ?c3 = "ex_decoder (ex_small 3 0 [1, 1, 1, 1, 0, 0, 0, 0] [0, 0, 7, 0, 0, 0] 0) True"
  let ?E4 = "ex_env (ex_fs (ex_ncch_bytes [1, 2, 3, 4, 5, 6, 7, 8] 3 0 [0x78, 0x56, 0x34, 0x12, 0, 0, 4, 0] 0 0 0 0)) True"
  let ?c4 = "ex_decoder (ex_ncch_bytes [1, 2, 3, 4, 5, 6, 7, 8] 3 0 [0x78, 0x56, 0x34, 0x12, 0, 0, 4, 0] 0 0 0 0) True"
  have a1: "header_readable ?E1 ?c1 \<and> version_unknown (file_header ?E1 ?c1) \<and>
            exheader_readable ?E1 ?c1 \<and> exefs_readable ?E1 ?c1 \<and>
            extended_header_size (file_header ?E1 ?c1) \<noteq> 0 \<and>
            hdr_exefs_size (file_header ?E1 ?c1) \<noteq> 0 \<and>
            hdr_exefs_offset (file_header ?E1 ?c1) * kBlockSize = 512 \<and>
            file_exefs_bytes ?E1 ?c1 = take 128 ex_exefs_bytes \<and>
            no_crypto (file_header ?E1 ?c1)" by code_simp
  have a2: "header_readable ?E2 ?c2 \<and> version_unknown (file_header ?E2 ?c2) \<and>
            exheader_readable ?E2 ?c2 \<and> hdr_exefs_size (file_header ?E2 ?c2) = 0 \<and>
            \<not> no_crypto (file_header ?E2 ?c2) \<and>
            jump_id_matches (file_exheader ?E2 ?c2) (file_header ?E2 ?c2)" by code_simp
  have a3: "header_readable ?E3 ?c3 \<and> version_unknown (file_header ?E3 ?c3) \<and>
            exheader_readable ?E3 ?c3 \<and> hdr_exefs_size (file_header ?E3 ?c3) = 0 \<and>
            extended_header_size (file_header ?E3 ?c3) \<noteq> 0 \<and> \<not> no_crypto (file_header ?E3 ?c3) \<and>
            \<not> jump_id_matches (file_exheader ?E3 ?c3) (file_header ?E3 ?c3)" by code_simp
  have a4: "header_readable ?E4 ?c4 \<and> version_unknown (file_header ?E4 ?c4) \<and>
            extended_header_size (file_header ?E4 ?c4) = 0 \<and>
            hdr_exefs_size (file_header ?E4 ?c4) = 0 \<and> \<not> no_crypto (file_header ?E4 ?c4)" by code_simp
  from Load_unknown_version [of ?E1 ?c1] a1
  have r1: "\<not> fst (Load_crypto ?E1 (after_header ?E1 ?c1)) \<and> fst (Load ?E1 ?c1) = Success \<and>
            has_exheader (snd (Load ?E1 ?c1)) \<and> has_exefs (snd (Load ?E1 ?c1)) \<and>
            exefs_offset (snd (Load ?E1 ?c1)) = 512 \<and>
            exefs_header (snd (Load ?E1 ?c1)) = take 128 ex_exefs_bytes"
    by simp
  from Load_unknown_version [of ?E2 ?c2] a2
  have r2: "fst (Load_crypto ?E2 (after_header ?E2 ?c2)) \<and> fst (Load ?E2 ?c2) = Success" by simp
  from Load_unknown_version [of ?E3 ?c3] a3 have r3: "fst (Load ?E3 ?c3) = ErrorEncrypted" by simp
  from Load_unknown_version [of ?E4 ?c4] a4
  have r4: "fst (Load ?E4 ?c4) = Success \<and> is_encrypted (snd (Load ?E4 ?c4))" by simp
  from r1 r2 r3 r4 show ?thesis by simp
qed

subsection \<open>\<^verbatim>\<open>LoadSectionExeFS\<close>\<close>

text \<open>
  Claim C5, as stated, fails in the offset of the read. Line 230 adds \<^verbatim>\<open>section.offset\<close> and
  \<^verbatim>\<open>exefs_offset\<close> as \<^verbatim>\<open>u32\<close> values, so their sum is taken modulo \<open>2 ^ 32\<close> before the size of
  the directory is added. On the example image, whose ExeFS is at byte offset 512 and whose
  directory has 128 bytes, the third descriptor is \<open>wrap\<close> with offset \<open>0xFFFFFE00\<close> and size 4.
  The offset of the claim, \<open>512 + 128 + 0xFFFFFE00\<close>, is far behind the 670 bytes of the file,
  where nothing can be read; the code reads at offset 128 and returns \<open>Success\<close> with the four
  bytes it finds there.
\<close>

theorem LoadSectionExeFS_by_name_counterexample:
  "fst (Load ex_game_env ex_game_decoder) = Success \<and>
   IsOpen (exefs_file (snd (Load ex_game_env ex_game_decoder))) \<and>
   \<not> strcmp_eq (sec_name (sections (exefs_of ex_game_env (snd (Load ex_game_env ex_game_decoder))) ! 0)) ''wrap'' \<and>
   \<not> strcmp_eq (sec_name (sections (exefs_of ex_game_env (snd (Load ex_game_env ex_game_decoder))) ! 1)) ''wrap'' \<and>
   strcmp_eq (sec_name (sections (exefs_of ex_game_env (snd (Load ex_game_env ex_game_decoder))) ! 2)) ''wrap'' \<and>
   sec_offset (sections (exefs_of ex_game_env (snd (Load ex_game_env ex_game_decoder))) ! 2) = 0xFFFFFE00 \<and>
   sec_size (sections (exefs_of ex_game_env (snd (Load ex_game_env ex_game_decoder))) ! 2) = 4 \<and>
   exefs_offset (snd (Load ex_game_env ex_game_decoder)) = 512 \<and>
   sizeof_ExeFs_Header ex_game_env = 128 \<and>
   content (exefs_file (snd (Load ex_game_env ex_game_decoder))) = ex_game \<and>
   length ex_game = 670 \<and>
   unat (exefs_offset (snd (Load ex_game_env ex_game_decoder))) + sizeof_ExeFs_Header ex_game_env +
     unat (sec_offset (sections (exefs_of ex_game_env (snd (Load ex_game_env ex_game_decoder))) ! 2)) =
     4294967424 \<and>
   take 4 (drop 4294967424 ex_game) = [] \<and>
   LoadSectionExeFS ex_game_env ''wrap'' [] ex_game_decoder =
     (Success, take 4 (drop 128 ex_game),
      snd (Load ex_game_env ex_game_decoder)
        \<lparr>exefs_file := (exefs_file (snd (Load ex_game_env ex_game_decoder)))\<lparr>pos := 132\<rparr>\<rparr>) \<and>
   take 4 (drop 128 ex_game) = [0, 0, 0, 0]"
proof -
  let ?c1 = "snd (Load ex_game_env ex_game_decoder)"
  let ?d = "sections (ex_as_ExeFs_Header (take 128 ex_exefs_bytes))"
  have names: "\<not> strcmp_eq (sec_name (?d ! 0)) ''wrap'' \<and> \<not> strcmp_eq (sec_name (?d ! 1)) ''wrap'' \<and>
               strcmp_eq (sec_name (?d ! 2)) ''wrap''"
    by (simp add: ex_directory strcmp_eq_def c_str_def)
  have sum: "unat (exefs_offset ?c1) + sizeof_ExeFs_Header ex_game_env + unat (sec_offset (?d ! 2)) =
             4294967424"
    by (simp add: ex_game_loaded(2) ex_game_size ex_directory_find(7))
  have past: "take 4 (drop 4294967424 ex_game) = []"
    by (simp add: ex_game_length)
  have wrapped: "unat (sec_offset (?d ! 2) + exefs_offset ?c1) = 0"
    by (simp add: ex_game_loaded(2) ex_directory_find(7))
  have run: "LoadSectionExeFS ex_game_env ''wrap'' [] ex_game_decoder =
     (Success, take 4 (drop 128 ex_game), ?c1\<lparr>exefs_file := (exefs_file ?c1)\<lparr>pos := 132\<rparr>\<rparr>)"
    by (simp add: LoadSectionExeFS_find [OF ex_game_Load ex_game_loaded(4)] ex_game_sections
        ex_directory_find(2) read_section_eq wrapped ex_directory_find(8) ex_game_size
        ex_game_loaded(3) ex_game_loaded(5) ex_game_length Let_def)
  have bytes: "take 4 (drop 128 ex_game) = [0, 0, 0, 0]"
    by code_simp
  from names sum past run bytes show ?thesis
    by (simp add: ex_game_sections ex_game_loaded ex_game_size ex_game_length ex_directory_find(7)
        ex_directory_find(8))
qed

text \<open>
  Claim C5, amended. When \<^verbatim>\<open>Load\<close> succeeds and the file of the ExeFS is open,
  \<^verbatim>\<open>LoadSectionExeFS\<close> looks for the first of the eight descriptors whose name equals the
  requested one; the requested name is taken to be shorter than the memory in which
  \<^verbatim>\<open>strcmp\<close> reads the name of a descriptor. If there is none it fails with \<open>ErrorNotUsed\<close> and
  leaves the buffer as it was. Otherwise it reads the \<open>size\<close> bytes of the descriptor at the
  byte offset of the ExeFS plus the offset of the descriptor, these two added as \<^verbatim>\<open>u32\<close>
  values, plus the size of the ExeFS header. Provided the byte offset of the ExeFS plus the
  offset of the descriptor is below \<open>2 ^ 32\<close>, that is the byte offset of the ExeFS plus the
  size of the ExeFS header plus the offset of the descriptor. When the byte source has the
  bytes all, the result is \<open>Success\<close> with exactly these bytes, as they are for a container
  that is not encrypted, and for an encrypted one decrypted with the primary key and the
  counter of the ExeFS at the key stream offset that is the offset of the descriptor plus
  the size of the ExeFS header. A short read gives \<open>Error\<close>.
\<close>

theorem LoadSectionExeFS_by_name:
  assumes "Load E c = (Success, c1)" "IsOpen (exefs_file c1)"
    and "\<forall>s \<in> set (take kMaxSections (sections (exefs_of E c1))).
           length (c_str name) < length (sec_name s)"
  shows "(find (\<lambda>s. strcmp_eq (sec_name s) name) (take kMaxSections (sections (exefs_of E c1))) = None
            \<longrightarrow> LoadSectionExeFS E name buffer c = (ErrorNotUsed, buffer, c1)) \<and>
         (\<forall>s. find (\<lambda>s. strcmp_eq (sec_name s) name) (take kMaxSections (sections (exefs_of E c1))) = Some s
            \<longrightarrow>
            (let off = (unat (sec_offset s) + unat (exefs_offset c1)) mod 2 ^ 32 + sizeof_ExeFs_Header E;
                 n = unat (sec_size s);
                 raw = take n (drop off (content (exefs_file c1)))
             in (unat (exefs_offset c1) + unat (sec_offset s) < 2 ^ 32 \<longrightarrow>
                   off = unat (exefs_offset c1) + sizeof_ExeFs_Header E + unat (sec_offset s)) \<and>
                (if n = 0 \<or> off + n \<le> length (content (exefs_file c1))
                 then length raw = n \<and>
                      LoadSectionExeFS E name buffer c =
                        (Success,
                         if is_encrypted c1
                         then CTR_Decryption E (primary_key c1) (exefs_ctr c1)
                                (unat (sec_offset s) + sizeof_ExeFs_Header E) raw
                         else raw,
                         c1\<lparr>exefs_file := (exefs_file c1)\<lparr>pos := off + n\<rparr>\<rparr>)
                 else fst (LoadSectionExeFS E name buffer c) = Error)))"
proof -
  have w: "unat (a + b) = (unat a + unat b) mod 2 ^ 32" for a b :: u32
    by (simp add: unat_word_ariths)
  show ?thesis
    by (auto simp: LoadSectionExeFS_find [OF assms(1,2)] read_section_eq w Let_def add.commute)
qed

text \<open>
  The instances, on the example image: \<open>banner\<close> (offset 10, size 20) is read at offset
  \<open>512 + 128 + 10\<close> and gives the 20 bytes 11 to 30; \<open>logo\<close> is not found; \<open>longname\<close> is not
  found either, the eight characters of the fourth descriptor being followed by the first
  byte of its offset and not by a terminator.
\<close>

theorem LoadSectionExeFS_by_name_witness:
  "LoadSectionExeFS ex_game_env ''banner'' [] ex_game_decoder =
     (Success, take 20 (drop (512 + 128 + 10) ex_game),
      snd (Load ex_game_env ex_game_decoder)
        \<lparr>exefs_file := (exefs_file (snd (Load ex_game_env ex_game_decoder)))\<lparr>pos := 670\<rparr>\<rparr>) \<and>
   take 20 (drop (512 + 128 + 10) ex_game) = map of_nat [11 ..< 31] \<and>
   LoadSectionExeFS ex_game_env ''logo'' [9] ex_game_decoder =
     (ErrorNotUsed, [9], snd (Load ex_game_env ex_game_decoder)) \<and>
   LoadSectionExeFS ex_game_env ''longname'' [9] ex_game_decoder =
     (ErrorNotUsed, [9], snd (Load ex_game_env ex_game_decoder))"
proof -
  let ?c1 = "snd (Load ex_game_env ex_game_decoder)"
  have H: "\<forall>s \<in> set (take kMaxSections (sections (exefs_of ex_game_env ?c1))).
             length (c_str name) < length (sec_name s)"
    if "length (c_str name) < 16" for name
    using that ex_directory_find(9) by (simp add: ex_game_sections)
  have n1: "length (c_str ''banner'') < 16" by (simp add: c_str_def)
  have n2: "length (c_str ''logo'') < 16" by (simp add: c_str_def)
  have n3: "length (c_str ''longname'') < 16" by (simp add: c_str_def)
  have V: "take 20 (drop (512 + 128 + 10) ex_game) = map of_nat [11 ..< 31]"
    by code_simp
  have b: "sec_offset (sections (ex_as_ExeFs_Header (take 128 ex_exefs_bytes)) ! Suc 0) = 10"
          "sec_size (sections (ex_as_ExeFs_Header (take 128 ex_exefs_bytes)) ! Suc 0) = 20"
    using ex_directory_find(5) ex_directory_find(6) by simp_all
  from LoadSectionExeFS_by_name [OF ex_game_Load ex_game_loaded(4) H [OF n1], of "[]"]
  have r1: "LoadSectionExeFS ex_game_env ''banner'' [] ex_game_decoder =
     (Success, take 20 (drop (512 + 128 + 10) ex_game),
      ?c1\<lparr>exefs_file := (exefs_file ?c1)\<lparr>pos := 670\<rparr>\<rparr>)"
    by (simp add: ex_game_sections ex_directory_find(1) b ex_game_loaded(2) ex_game_loaded(3)
        ex_game_loaded(5) ex_game_size ex_game_length Let_def)
  from LoadSectionExeFS_by_name [OF ex_game_Load ex_game_loaded(4) H [OF n2], of "[9]"]
  have r2: "LoadSectionExeFS ex_game_env ''logo'' [9] ex_game_decoder = (ErrorNotUsed, [9], ?c1)"
    by (simp add: ex_game_sections ex_directory_find(3))
  from LoadSectionExeFS_by_name [OF ex_game_Load ex_game_loaded(4) H [OF n3], of "[9]"]
  have r3: "LoadSectionExeFS ex_game_env ''longname'' [9] ex_game_decoder = (ErrorNotUsed, [9], ?c1)"
    by (simp add: ex_game_sections ex_directory_find(4))
  from r1 V r2 r3 show ?thesis by simp
qed

subsection \<open>The counters\<close>

text \<open>
  Claim C4, as stated, fails. Lines 95 to 99 write bytes 0 to 8 of the counters and lines
  104 to 119 bytes 0 to 7 and 12 to 15; the other bytes keep what the counter of the
  extended header held, and nothing clears it. A decoder constructed on the outer header of
  version 1 derives its counters and then fails to load (no extended header to read); given
  the small image of version 0 by \<^verbatim>\<open>OpenFile\<close>, its \<^verbatim>\<open>Load\<close> succeeds, and bytes 12 to 15 of
  both counters are still the offset \<open>0x200\<close> of the first file, not zero.
\<close>

theorem Load_derives_counters_counterexample:
  "header_readable (ex_env2 (Some ex_v1_header) (Some ex_v0))
     (ex_reopened (Some ex_v1_header) (Some ex_v0)) \<and>
   \<not> no_crypto (file_header (ex_env2 (Some ex_v1_header) (Some ex_v0))
     (ex_reopened (Some ex_v1_header) (Some ex_v0))) \<and>
   version (file_header (ex_env2 (Some ex_v1_header) (Some ex_v0))
     (ex_reopened (Some ex_v1_header) (Some ex_v0))) = 0 \<and>
   partition_id (file_header (ex_env2 (Some ex_v1_header) (Some ex_v0))
     (ex_reopened (Some ex_v1_header) (Some ex_v0))) = [1, 2, 3, 4, 5, 6, 7, 8] \<and>
   fst (Load (ex_env2 (Some ex_v1_header) (Some ex_v0))
     (ex_reopened (Some ex_v1_header) (Some ex_v0))) = Success \<and>
   exheader_ctr (snd (Load (ex_env2 (Some ex_v1_header) (Some ex_v0))
     (ex_reopened (Some ex_v1_header) (Some ex_v0)))) =
     [8, 7, 6, 5, 4, 3, 2, 1, 1, 0, 0, 0, 0, 0, 2, 0] \<and>
   exefs_ctr (snd (Load (ex_env2 (Some ex_v1_header) (Some ex_v0))
     (ex_reopened (Some ex_v1_header) (Some ex_v0)))) =
     [8, 7, 6, 5, 4, 3, 2, 1, 2, 0, 0, 0, 0, 0, 2, 0]"
  by code_simp

text \<open>
  Claim C4, amended. For a container whose outer header can be read and has the encryption
  flag set, with a partition identifier of 8 bytes, the two counters after \<^verbatim>\<open>Load\<close>, whatever
  it returns, are given by the version, the partition identifier, the offset of the ExeFS
  and the bytes of the counter of the extended header that \<^verbatim>\<open>Load\<close> does not write. For
  version 0 or 2 both are the partition identifier reversed, then the byte 1 for the
  extended header and 2 for the ExeFS, then bytes 9 to 15 as the counter of the extended
  header held them on entry: when these are zero, as on a new decoder, all remaining bytes
  are zero. For version 1 both are the partition identifier as it is, then bytes 8 to 11 as
  the counter of the extended header held them, then four bytes that are the big-endian
  encoding of \<open>0x200\<close> for the extended header and of the offset of the ExeFS in media units
  times 512 (as a \<^verbatim>\<open>u32\<close>, so modulo \<open>2 ^ 32\<close>) for the ExeFS.
\<close>

theorem Load_derives_counters:
  assumes "header_readable E c" "\<not> no_crypto (file_header E c)"
    and "length (partition_id (file_header E c)) = 8"
    and "length (exheader_ctr c) = 16"
  shows "(version (file_header E c) = 0 \<or> version (file_header E c) = 2 \<longrightarrow>
            exheader_ctr (snd (Load E c)) =
              rev (partition_id (file_header E c)) @ [1] @ drop 9 (exheader_ctr c) \<and>
            exefs_ctr (snd (Load E c)) =
              rev (partition_id (file_header E c)) @ [2] @ drop 9 (exheader_ctr c) \<and>
            (drop 9 (exheader_ctr c) = replicate 7 0 \<longrightarrow>
               exheader_ctr (snd (Load E c)) =
                 rev (partition_id (file_header E c)) @ [1, 0, 0, 0, 0, 0, 0, 0] \<and>
               exefs_ctr (snd (Load E c)) =
                 rev (partition_id (file_header E c)) @ [2, 0, 0, 0, 0, 0, 0, 0])) \<and>
         (version (file_header E c) = 1 \<longrightarrow>
            exheader_ctr (snd (Load E c)) =
              partition_id (file_header E c) @ take 4 (drop 8 (exheader_ctr c)) @ u32ToBEArray 0x200 \<and>
            exefs_ctr (snd (Load E c)) =
              partition_id (file_header E c) @ take 4 (drop 8 (exheader_ctr c)) @
              u32ToBEArray (hdr_exefs_offset (file_header E c) * kBlockSize) \<and>
            u32ToBEArray 0x200 = [0, 0, 2, 0] \<and>
            be_nat (u32ToBEArray 0x200) = 0x200 \<and>
            length (u32ToBEArray (hdr_exefs_offset (file_header E c) * kBlockSize)) = 4 \<and>
            be_nat (u32ToBEArray (hdr_exefs_offset (file_header E c) * kBlockSize)) =
              (unat (hdr_exefs_offset (file_header E c)) * 512) mod 2 ^ 32)"
proof -
  let ?h = "file_header E c"
  let ?a = "after_header E c"
  have h: "header_of E ?a = ?h"
    by (simp add: header_of_def after_header_def file_header_def)
  have n: "\<not> no_crypto (header_of E ?a)" using assms(2) h by simp
  have z: "exheader_ctr ?a = exheader_ctr c" by (simp add: after_header_def)
  have lr: "length (rev (partition_id ?h)) = 8" using assms(3) by simp
  have v02: "version ?h = 0 \<or> version ?h = 2 \<Longrightarrow>
      exheader_ctr (snd (Load_crypto E ?a)) = rev (partition_id ?h) @ [1] @ drop 9 (exheader_ctr c) \<and>
      exefs_ctr (snd (Load_crypto E ?a)) = rev (partition_id ?h) @ [2] @ drop 9 (exheader_ctr c)"
    using assms(3)
    by (simp only: Load_crypto_ctrs [OF n] h z copy_to_0_16 [OF lr assms(4)]
        update_8_16 [OF lr assms(4)] take_all order_refl if_True)
  have v1: "version ?h = 1 \<Longrightarrow>
      exheader_ctr (snd (Load_crypto E ?a)) =
        partition_id ?h @ take 4 (drop 8 (exheader_ctr c)) @ u32ToBEArray 0x200 \<and>
      exefs_ctr (snd (Load_crypto E ?a)) =
        partition_id ?h @ take 4 (drop 8 (exheader_ctr c)) @ u32ToBEArray (hdr_exefs_offset ?h * kBlockSize)"
    using assms(3)
    by (simp only: Load_crypto_ctrs [OF n] h z copy_to_0_16 [OF assms(3,4)]
        copy_to_12_16 [OF assms(3,4)] length_u32ToBEArray take_all order_refl) simp
  have w: "be_nat (u32ToBEArray (hdr_exefs_offset ?h * kBlockSize)) =
      (unat (hdr_exefs_offset ?h) * 512) mod 2 ^ 32"
    by (simp add: be_nat_u32ToBEArray kBlockSize_def unat_word_ariths)
  have b: "be_nat (u32ToBEArray 0x200) = 0x200"
    by (simp add: be_nat_u32ToBEArray)
  have z7: "replicate 7 (0::u8) = [0, 0, 0, 0, 0, 0, 0]" by (simp add: numeral_eq_Suc)
  from v02 v1 w b show ?thesis
    by (simp add: Load_frame_crypto [OF assms(1)] u32ToBEArray_0x200 length_u32ToBEArray z7)
qed

text \<open>
  The instances, on new decoders, whose counters are zero-filled: the small image of
  version 0 and the example image of version 1, whose ExeFS is at media unit 1, both with
  the fixed-key flag (flag byte 1).
\<close>

theorem Load_derives_counters_witness:
  "exheader_ctr (snd (Load (ex_env (ex_fs ex_v0) True) (ex_decoder ex_v0 True))) =
     [8, 7, 6, 5, 4, 3, 2, 1, 1, 0, 0, 0, 0, 0, 0, 0] \<and>
   exefs_ctr (snd (Load (ex_env (ex_fs ex_v0) True) (ex_decoder ex_v0 True))) =
     [8, 7, 6, 5, 4, 3, 2, 1, 2, 0, 0, 0, 0, 0, 0, 0] \<and>
   exheader_ctr (snd (Load (ex_env (ex_fs (ex_image 1 1 [1, 1, 1, 1, 0, 0, 0, 0])) True)
       (ex_decoder (ex_image 1 1 [1, 1, 1, 1, 0, 0, 0, 0]) True))) =
     [1, 2, 3, 4, 5, 6, 7, 8, 0, 0, 0, 0, 0, 0, 2, 0] \<and>
   exefs_ctr (snd (Load (ex_env (ex_fs (ex_image 1 1 [1, 1, 1, 1, 0, 0, 0, 0])) True)
       (ex_decoder (ex_image 1 1 [1, 1, 1, 1, 0, 0, 0, 0]) True))) =
     [1, 2, 3, 4, 5, 6, 7, 8, 0, 0, 0, 0, 0, 0, 2, 0]"
proof -
  let ?E = "ex_env (ex_fs ex_v0) True"
  let ?c = "ex_decoder ex_v0 True"
  let ?E' = "ex_env (ex_fs (ex_image 1 1 [1, 1, 1, 1, 0, 0, 0, 0])) True"
  let ?c' = "ex_decoder (ex_image 1 1 [1, 1, 1, 1, 0, 0, 0, 0]) True"
  have z: "replicate 16 (0::u8) = [0, 0, 0, 0, 0, 0, 0, 0, 0, 0, 0, 0, 0, 0, 0, 0]"
    by (simp add: numeral_eq_Suc)
  have h1: "header_readable ?E ?c" by code_simp
  have h2: "\<not> no_crypto (file_header ?E ?c)" by code_simp
  have h3: "partition_id (file_header ?E ?c) = [1, 2, 3, 4, 5, 6, 7, 8]" by code_simp
  have h4: "exheader_ctr ?c = [0, 0, 0, 0, 0, 0, 0, 0, 0, 0, 0, 0, 0, 0, 0, 0]"
    by (simp add: ex_decoder_def NCCHContainer_new_def z)
  have h5: "version (file_header ?E ?c) = 0" by code_simp
  have k1: "header_readable ?E' ?c'" by code_simp
  have k2: "\<not> no_crypto (file_header ?E' ?c')" by code_simp
  have k3: "partition_id (file_header ?E' ?c') = [1, 2, 3, 4, 5, 6, 7, 8]" by code_simp
  have k4: "exheader_ctr ?c' = [0, 0, 0, 0, 0, 0, 0, 0, 0, 0, 0, 0, 0, 0, 0, 0]"
    by (simp add: ex_decoder_def NCCHContainer_new_def z)
  have k5: "version (file_header ?E' ?c') = 1" by code_simp
  have k6: "u32ToBEArray (hdr_exefs_offset (file_header ?E' ?c') * kBlockSize) = [0, 0, 2, 0]"
    by code_simp
  from Load_derives_counters [OF h1 h2, of] h3 h4 h5
  have r: "exheader_ctr (snd (Load ?E ?c)) = [8, 7, 6, 5, 4, 3, 2, 1, 1, 0, 0, 0, 0, 0, 0, 0] \<and>
           exefs_ctr (snd (Load ?E ?c)) = [8, 7, 6, 5, 4, 3, 2, 1, 2, 0, 0, 0, 0, 0, 0, 0]"
    by simp
  from Load_derives_counters [OF k1 k2, of] k3 k4 k5 k6
  have r': "exheader_ctr (snd (Load ?E' ?c')) = [1, 2, 3, 4, 5, 6, 7, 8, 0, 0, 0, 0, 0, 0, 2, 0] \<and>
            exefs_ctr (snd (Load ?E' ?c')) = [1, 2, 3, 4, 5, 6, 7, 8, 0, 0, 0, 0, 0, 0, 2, 0]"
    by simp
  from r r' show ?thesis by simp
qed

subsection \<open>\<^verbatim>\<open>LoadSharedRomFS\<close>\<close>



end
